theory Spec2Isabelle
  imports Complex_Main
begin

section \<open>Python strings\<close>

text \<open>
  Python \<open>str\<close> values are modelled as \<open>string\<close>, on the ASCII range. The three string
  operations the analyzer uses are the substring test \<open>pat in s\<close>, \<open>s.lower()\<close> and
  concatenation.
\<close>

fun starts_with :: "string \<Rightarrow> string \<Rightarrow> bool" where
  "starts_with [] s = True"
| "starts_with (p # ps) [] = False"
| "starts_with (p # ps) (c # cs) = (p = c \<and> starts_with ps cs)"

text \<open>\<open>contains pat s\<close> is Python's \<open>pat in s\<close>.\<close>

fun contains :: "string \<Rightarrow> string \<Rightarrow> bool" where
  "contains pat [] = (pat = [])"
| "contains pat (c # cs) = (starts_with pat (c # cs) \<or> contains pat cs)"

text \<open>\<open>str.lower()\<close> on the ASCII range: the letters \<open>A\<close> to \<open>Z\<close> are mapped, every other
  character is kept.\<close>

definition lower_char :: "char \<Rightarrow> char" where
  "lower_char c =
     (case map_of (zip ''ABCDEFGHIJKLMNOPQRSTUVWXYZ'' ''abcdefghijklmnopqrstuvwxyz'') c of
        None \<Rightarrow> c
      | Some d \<Rightarrow> d)"

definition lower :: "string \<Rightarrow> string" where
  "lower s = map lower_char s"

section \<open>SiteTester.prepare_url\<close>

definition prepare_url :: "string \<Rightarrow> string" where
  "prepare_url url =
     (if \<not> contains ''aleid='' url \<and> \<not> contains ''alart='' url
      then (let separator = (if contains ''?'' url then ''&'' else ''?'')
            in url @ separator @ ''alart=test_identifier1234&aleid=test_identifier5678'')
      else url)"

section \<open>Values and library functions the code relies on\<close>

text \<open>
  A call into the browser library or the standard library either raises or returns.
\<close>

datatype 'a outcome = Raises | Returns 'a

datatype py_error = AttributeError | IndexError | JSONDecodeError | BrowserError

text \<open>
  The values \<open>json.loads\<close> produces. A JSON object is a Python \<open>dict\<close>, kept as an
  association list that is read with \<open>map_of\<close>.
\<close>

datatype pyfloat = Finite real | Infinite bool | NaN

datatype json =
    JNull
  | JBool bool
  | JInt int
  | JFloat pyfloat
  | JString string
  | JArray "json list"
  | JObject "(string \<times> json) list"

text \<open>Python truthiness, as \<open>if x\<close> and \<open>not x\<close> test it.\<close>

fun truthy :: "json \<Rightarrow> bool" where
  "truthy JNull = False"
| "truthy (JBool b) = b"
| "truthy (JInt i) = (i \<noteq> 0)"
| "truthy (JFloat (Finite r)) = (r \<noteq> 0)"
| "truthy (JFloat (Infinite _)) = True"
| "truthy (JFloat NaN) = True"
| "truthy (JString s) = (s \<noteq> [])"
| "truthy (JArray xs) = (xs \<noteq> [])"
| "truthy (JObject kvs) = (kvs \<noteq> [])"

text \<open>
  \<open>d.get(key, default)\<close>: only a \<open>dict\<close> has it; on every other value the
  attribute lookup raises.
\<close>

fun dict_get :: "json \<Rightarrow> string \<Rightarrow> json \<Rightarrow> py_error + json" where
  "dict_get (JObject kvs) k d = Inr (case map_of kvs k of None \<Rightarrow> d | Some v \<Rightarrow> v)"
| "dict_get _ k d = Inl AttributeError"

record parse_result =
  netloc :: string
  query :: string

text \<open>
  The functions of the Python standard library that the code calls are parameters of the
  model: \<open>urlparse\<close> (its \<open>netloc\<close> and \<open>query\<close> components), \<open>parse_qs\<close> (a \<open>dict\<close>
  from names to lists of values), \<open>json.loads\<close> (\<open>None\<close> when it raises), \<open>str\<close> of
  a headers \<open>dict\<close>, and \<open>str\<close> of a JSON value that is not a string.
\<close>

record pylib =
  urlparse :: "string \<Rightarrow> parse_result"
  parse_qs :: "string \<Rightarrow> (string \<times> string list) list"
  json_loads :: "string \<Rightarrow> json option"
  str_headers :: "(string \<times> string) list \<Rightarrow> string"
  str_value :: "json \<Rightarrow> string"

text \<open>\<open>xs[0]\<close>.\<close>

definition first :: "'a list \<Rightarrow> py_error + 'a" where
  "first xs = (case xs of [] \<Rightarrow> Inl IndexError | x # _ \<Rightarrow> Inr x)"

section \<open>constants.py\<close>

definition DOMAINS_OF_INTEREST :: "(string \<times> string \<times> bool) list" where
  "DOMAINS_OF_INTEREST =
     [(''applovin.com'', ''tracking'', True),
      (''axon.ai'', ''analytics'', False),
      (''albss.com'', ''analytics'', False)]"

definition TRACKING_INDICATORS :: \<open>(string \<times> string list) list\<close> where
  \<open>TRACKING_INDICATORS =
     [(''shopify'', [''myshopify.com'', ''shopify.shop'', ''link[href*="shopify"]'',
                     ''script[src*="shopify"]'']),
      (''gtm'', [''gtm.start'']),
      (''axon'', [''axon'']),
      (''ga'', [''ga.js'', ''analytics.js'']),
      (''ga4'', [''gtag''])]\<close>

definition api_endpoints :: "string list" where
  "api_endpoints =
     [''store.myshopify.com/api/graphql'',
      ''shopify.com/api/graphql'',
      ''shopify.com/api/2023-01/graphql.json'',
      ''shopify.com/api/2022-10/graphql.json'']"

definition script_patterns :: "string list" where
  "script_patterns =
     [''@shopify/hydrogen'',
      ''@shopify/storefront-api'',
      ''shopify.loadFeatures'',
      ''shopify.buy.Button'',
      ''shopify-buy'']"

definition meta_tags :: "string list" where
  "meta_tags =
     [''shopify-digital-wallet'',
      ''shopify-checkout-api-token'',
      ''shopify-storefront-api-token'']"

definition request_headers :: "string list" where
  "request_headers =
     [''X-Shopify-Storefront-Access-Token'',
      ''X-Shopify-Storefront-API-Version'']"

section \<open>RequestParser\<close>

definition parse_v1_request :: "json \<Rightarrow> py_error + (json \<times> json)" where
  "parse_v1_request json_data =
     (case dict_get json_data ''name'' (JString []) of
        Inl e \<Rightarrow> Inl e
      | Inr event_name \<Rightarrow>
          (case dict_get json_data ''applovin'' (JObject []) of
             Inl e \<Rightarrow> Inl e
           | Inr applovin_data \<Rightarrow>
               if \<not> truthy applovin_data
               then (case dict_get json_data ''axon'' (JObject []) of
                       Inl e \<Rightarrow> Inl e
                     | Inr axon_data \<Rightarrow> Inr (event_name, axon_data))
               else Inr (event_name, applovin_data)))"

definition parse_v2_request :: "json \<Rightarrow> py_error + (json \<times> json \<times> json)" where
  "parse_v2_request json_data =
     (case dict_get json_data ''applovin'' (JObject []) of
        Inl e \<Rightarrow> Inl e
      | Inr applovin_data \<Rightarrow>
          (case dict_get json_data ''event'' (JObject []) of
             Inl e \<Rightarrow> Inl e
           | Inr event_data \<Rightarrow>
               (case dict_get event_data ''name'' (JString []) of
                  Inl e \<Rightarrow> Inl e
                | Inr event_name \<Rightarrow>
                    (case dict_get applovin_data ''art'' (JString []) of
                       Inl e \<Rightarrow> Inl e
                     | Inr request_art \<Rightarrow>
                         (case dict_get applovin_data ''eventId'' (JString []) of
                            Inl e \<Rightarrow> Inl e
                          | Inr request_event_id \<Rightarrow>
                              Inr (event_name, request_art, request_event_id))))))"

definition params_get :: "(string \<times> string list) list \<Rightarrow> string \<Rightarrow> string list" where
  "params_get url_params k = (case map_of url_params k of None \<Rightarrow> [[]] | Some vs \<Rightarrow> vs)"

definition parse_url_parameters :: "pylib \<Rightarrow> string \<Rightarrow> py_error + (string \<times> string)" where
  "parse_url_parameters lib url =
     (let parsed_url = urlparse lib url;
          url_params = parse_qs lib (query parsed_url)
      in case first (params_get url_params ''alart'') of
           Inl e \<Rightarrow> Inl e
         | Inr a \<Rightarrow>
             (case first (params_get url_params ''aleid'') of
                Inl e \<Rightarrow> Inl e
              | Inr b \<Rightarrow> Inr (a, b)))"

section \<open>The browser objects handed to the analyzer\<close>

text \<open>
  The Playwright objects are read through a few calls only; each object is modelled as the
  record of what those calls give. An element's \<open>get_attribute\<close> returns \<open>None\<close> for a
  missing attribute.
\<close>

record script_element =
  src_attr :: "string option outcome"
  inner_text :: "string outcome"

record meta_element =
  name_attr :: "string option outcome"
  content_attr :: "string option outcome"

text \<open>
  \<open>page_scripts\<close> and \<open>page_metas\<close> are \<open>query_selector_all('script')\<close> and
  \<open>query_selector_all('meta')\<close>; \<open>link_shopify\<close> and \<open>script_shopify\<close> say whether
  \<open>query_selector('link[href*="shopify"]')\<close> and \<open>query_selector('script[src*="shopify"]')\<close>
  are not \<open>None\<close>.
\<close>

record page =
  page_content :: "string outcome"
  page_scripts :: "script_element list outcome"
  page_metas :: "meta_element list outcome"
  page_url :: string
  link_shopify :: "bool outcome"
  script_shopify :: "bool outcome"

record response =
  resp_headers :: "(string \<times> string) list"

text \<open>
  \<open>http_method\<close> is \<open>request.method\<close>; \<open>frame_page_url\<close> is
  \<open>request.frame.page.url\<close>, which raises for a request that has no
  frame.
\<close>

record request =
  url :: string
  http_method :: string
  resource_type :: string
  headers :: "(string \<times> string) list"
  post_data :: "string option outcome"
  frame_page_url :: "string outcome"

section \<open>SiteAnalyzer: the state\<close>

text \<open>
  Each of the five dictionaries of the analyzer has a fixed set of keys, written by
  \<open>reset_flags\<close>; it is modelled as a record with one field for each key.
\<close>

record content_indicators =
  shopify :: bool
  headless_shopify :: bool
  axon :: bool
  gtm :: bool
  ga :: bool
  ga4 :: bool

record request_info =
  info_url :: string
  info_method :: string
  info_type :: string
  info_critical :: bool

record api_request_info =
  api_url :: string
  api_method :: string
  api_type :: string
  api_headers :: "(string \<times> string) list"

record network_requests =
  axon_ai :: "request_info list"
  albss :: "request_info list"
  applovin :: "request_info list"
  tracking :: "string list"
  shopify_api :: "api_request_info list"

record events =
  land :: bool
  page_view :: bool
  page_viewed :: bool

record parameter_matches =
  aleid :: bool
  alart :: bool

record headless_indicators =
  api_calls :: bool
  storefront_api :: bool
  hydrogen :: bool
  buy_sdk :: bool

record analyzer =
  a_content :: content_indicators
  a_requests :: network_requests
  a_events :: events
  a_matches :: parameter_matches
  a_headless :: headless_indicators

definition reset_flags :: analyzer where
  "reset_flags =
     \<lparr>a_content = \<lparr>shopify = False, headless_shopify = False, axon = False, gtm = False,
                   ga = False, ga4 = False\<rparr>,
      a_requests = \<lparr>axon_ai = [], albss = [], applovin = [], tracking = [], shopify_api = []\<rparr>,
      a_events = \<lparr>land = False, page_view = False, page_viewed = False\<rparr>,
      a_matches = \<lparr>aleid = False, alart = False\<rparr>,
      a_headless = \<lparr>api_calls = False, storefront_api = False, hydrogen = False,
                    buy_sdk = False\<rparr>\<rparr>"

section \<open>SiteAnalyzer.check_page_content\<close>

text \<open>\<open>self.content_indicators[indicator] = v\<close> for a key of the dictionary.\<close>

definition set_indicator :: "string \<Rightarrow> bool \<Rightarrow> content_indicators \<Rightarrow> content_indicators" where
  "set_indicator k v ci =
     (if k = ''shopify'' then ci\<lparr>shopify := v\<rparr>
      else if k = ''headless_shopify'' then ci\<lparr>headless_shopify := v\<rparr>
      else if k = ''axon'' then ci\<lparr>axon := v\<rparr>
      else if k = ''gtm'' then ci\<lparr>gtm := v\<rparr>
      else if k = ''ga'' then ci\<lparr>ga := v\<rparr>
      else if k = ''ga4'' then ci\<lparr>ga4 := v\<rparr>
      else ci)"

text \<open>\<open>x or ''\<close> for an attribute value.\<close>

definition or_empty :: "string option \<Rightarrow> string" where
  "or_empty a = (case a of None \<Rightarrow> [] | Some s \<Rightarrow> s)"

text \<open>
  The loop over the inline-script patterns adds one at the first pattern found and leaves
  the loop.
\<close>

fun inline_loop :: "string list \<Rightarrow> string \<Rightarrow> nat \<Rightarrow> nat" where
  "inline_loop [] script_content found = found"
| "inline_loop (pattern # rest) script_content found =
     (if contains (lower pattern) script_content then found + 1
      else inline_loop rest script_content found)"

text \<open>
  The loop over the script elements. It returns the headless indicators as the loop left
  them and the count, \<open>None\<close> when \<open>get_attribute\<close> raised; an \<open>inner_text\<close> that raises
  is skipped.
\<close>

fun scripts_loop ::
  "script_element list \<Rightarrow> headless_indicators \<Rightarrow> nat \<Rightarrow> headless_indicators \<times> nat option" where
  "scripts_loop [] hi found = (hi, Some found)"
| "scripts_loop (script # rest) hi found =
     (case src_attr script of
        Raises \<Rightarrow> (hi, None)
      | Returns a \<Rightarrow>
          (let src = or_empty a;
               (hi1, n1) = (if contains ''@shopify/hydrogen'' src
                            then (hi\<lparr>hydrogen := True\<rparr>, found + 1) else (hi, found));
               (hi2, n2) = (if contains ''@shopify/storefront-api'' src
                            then (hi1\<lparr>storefront_api := True\<rparr>, n1 + 1) else (hi1, n1));
               (hi3, n3) = (if contains ''shopify-buy'' src
                            then (hi2\<lparr>buy_sdk := True\<rparr>, n2 + 1) else (hi2, n2));
               n4 = (case inner_text script of
                       Raises \<Rightarrow> n3
                     | Returns t \<Rightarrow> inline_loop script_patterns (lower t) n3)
           in scripts_loop rest hi3 n4))"

definition check_headless_shopify_scripts :: "analyzer \<Rightarrow> page \<Rightarrow> analyzer" where
  "check_headless_shopify_scripts st pg =
     (case page_scripts pg of
        Raises \<Rightarrow> st
      | Returns scripts \<Rightarrow>
          (case scripts_loop scripts (a_headless st) 0 of
             (hi, None) \<Rightarrow> st\<lparr>a_headless := hi\<rparr>
           | (hi, Some headless_indicators_found) \<Rightarrow>
               if headless_indicators_found \<ge> 2
               then st\<lparr>a_headless := hi, a_content := (a_content st)\<lparr>headless_shopify := True\<rparr>\<rparr>
               else st\<lparr>a_headless := hi\<rparr>))"

fun meta_pattern_loop :: "string list \<Rightarrow> string \<Rightarrow> string \<Rightarrow> nat \<Rightarrow> nat" where
  "meta_pattern_loop [] name content found = found"
| "meta_pattern_loop (pattern # rest) name content found =
     meta_pattern_loop rest name content
       (if contains (lower pattern) (lower name) \<or> contains (lower pattern) (lower content)
        then found + 1 else found)"

fun meta_loop :: "meta_element list \<Rightarrow> nat \<Rightarrow> nat option" where
  "meta_loop [] found = Some found"
| "meta_loop (meta # rest) found =
     (case name_attr meta of
        Raises \<Rightarrow> None
      | Returns a \<Rightarrow>
          (case content_attr meta of
             Raises \<Rightarrow> None
           | Returns b \<Rightarrow>
               meta_loop rest (meta_pattern_loop meta_tags (or_empty a) (or_empty b) found)))"

definition check_headless_shopify_meta_tags :: "analyzer \<Rightarrow> page \<Rightarrow> analyzer" where
  "check_headless_shopify_meta_tags st pg =
     (case page_metas pg of
        Raises \<Rightarrow> st
      | Returns metas \<Rightarrow>
          (case meta_loop metas 0 of
             None \<Rightarrow> st
           | Some meta_indicators_found \<Rightarrow>
               if meta_indicators_found \<ge> 2
               then st\<lparr>a_content := (a_content st)\<lparr>headless_shopify := True\<rparr>\<rparr>
               else st))"

definition check_page_content :: "analyzer \<Rightarrow> page \<Rightarrow> analyzer" where
  "check_page_content st pg =
     (case page_content pg of
        Raises \<Rightarrow> st
      | Returns c \<Rightarrow>
          (let content = lower c;
               st1 = st\<lparr>a_content :=
                        fold (\<lambda>(indicator, patterns).
                                set_indicator indicator
                                  (list_ex (\<lambda>pattern. contains (lower pattern) content) patterns))
                          TRACKING_INDICATORS (a_content st)\<rparr>;
               st2 = check_headless_shopify_scripts st1 pg
           in check_headless_shopify_meta_tags st2 pg))"

section \<open>SiteAnalyzer.check_request\<close>

definition log_shopify_api_request :: "analyzer \<Rightarrow> request \<Rightarrow> analyzer" where
  "log_shopify_api_request st rq =
     (let request_info = \<lparr>api_url = url rq, api_method = http_method rq,
                           api_type = resource_type rq, api_headers = headers rq\<rparr>
      in st\<lparr>a_requests := (a_requests st)\<lparr>shopify_api := shopify_api (a_requests st) @ [request_info]\<rparr>\<rparr>)"

text \<open>
  The two loops of \<open>_check_shopify_api_request\<close>: each stops at the first pattern found,
  after counting it, setting \<open>api_calls\<close> and logging the request.
\<close>

fun endpoint_loop ::
  "string list \<Rightarrow> string \<Rightarrow> request \<Rightarrow> analyzer \<Rightarrow> nat \<Rightarrow> analyzer \<times> nat" where
  "endpoint_loop [] u rq st api_indicators = (st, api_indicators)"
| "endpoint_loop (endpoint # rest) u rq st api_indicators =
     (if contains (lower endpoint) u
      then (log_shopify_api_request
              (st\<lparr>a_headless := (a_headless st)\<lparr>api_calls := True\<rparr>\<rparr>) rq,
            api_indicators + 1)
      else endpoint_loop rest u rq st api_indicators)"

fun header_loop ::
  "string list \<Rightarrow> string \<Rightarrow> request \<Rightarrow> analyzer \<Rightarrow> nat \<Rightarrow> analyzer \<times> nat" where
  "header_loop [] hs rq st api_indicators = (st, api_indicators)"
| "header_loop (header # rest) hs rq st api_indicators =
     (if contains (lower header) (lower hs)
      then (log_shopify_api_request
              (st\<lparr>a_headless := (a_headless st)\<lparr>api_calls := True\<rparr>\<rparr>) rq,
            api_indicators + 1)
      else header_loop rest hs rq st api_indicators)"

definition check_shopify_api_request :: "pylib \<Rightarrow> analyzer \<Rightarrow> request \<Rightarrow> analyzer" where
  "check_shopify_api_request lib st rq =
     (let u = lower (url rq);
          (st1, n1) = endpoint_loop api_endpoints u rq st 0;
          (st2, n2) = header_loop request_headers (str_headers lib (headers rq)) rq st1 n1
      in if n2 \<ge> 2
         then st2\<lparr>a_content := (a_content st2)\<lparr>headless_shopify := True\<rparr>\<rparr>
         else st2)"

text \<open>The f-string \<open>{event_name}\<close>: \<open>str\<close> of a string is the string.\<close>

definition format_value :: "pylib \<Rightarrow> json \<Rightarrow> string" where
  "format_value lib v = (case v of JString s \<Rightarrow> s | _ \<Rightarrow> str_value lib v)"

definition log_event_data ::
  "pylib \<Rightarrow> analyzer \<Rightarrow> json \<Rightarrow> string \<Rightarrow> json \<Rightarrow> json \<Rightarrow> string \<Rightarrow> string \<Rightarrow> analyzer" where
  "log_event_data lib st event_name version art event_id url_alart url_aleid =
     (let ev = a_events st;
          ev1 = (if event_name = JString ''land'' then ev\<lparr>land := True\<rparr>
                 else if event_name = JString ''page_view'' then ev\<lparr>page_view := True\<rparr>
                 else if event_name = JString ''page_viewed'' then ev\<lparr>page_viewed := True\<rparr>
                 else ev);
          pm = a_matches st;
          pm1 = (if truthy art \<and> url_alart \<noteq> []
                 then (if art = JString url_alart then pm\<lparr>alart := True\<rparr> else pm)
                 else pm);
          pm2 = (if truthy event_id \<and> url_aleid \<noteq> []
                 then (if event_id = JString url_aleid then pm1\<lparr>aleid := True\<rparr> else pm1)
                 else pm1);
          request_info = ''Axon Event: '' @ format_value lib event_name
      in st\<lparr>a_events := ev1, a_matches := pm2,
            a_requests := (a_requests st)\<lparr>tracking := tracking (a_requests st) @ [request_info]\<rparr>\<rparr>)"

text \<open>
  The body of the \<open>try\<close> block of \<open>_process_pixel_request\<close>, with every exception as a
  result, and the function itself, whose \<open>except\<close> clause swallows them.
\<close>

definition process_pixel_request_body :: "pylib \<Rightarrow> analyzer \<Rightarrow> request \<Rightarrow> py_error + analyzer" where
  "process_pixel_request_body lib st rq =
     (case frame_page_url rq of
        Raises \<Rightarrow> Inl BrowserError
      | Returns current_url \<Rightarrow>
          (case parse_url_parameters lib current_url of
             Inl e \<Rightarrow> Inl e
           | Inr (url_alart, url_aleid) \<Rightarrow>
               (case post_data rq of
                  Raises \<Rightarrow> Inl BrowserError
                | Returns None \<Rightarrow> Inr st
                | Returns (Some body) \<Rightarrow>
                    if body = [] then Inr st
                    else
                      (case json_loads lib body of
                         None \<Rightarrow> Inl JSONDecodeError
                       | Some json_data \<Rightarrow>
                           if contains ''/shopify/v2/pixel'' (url rq) \<or> contains ''/v2/pixel'' (url rq)
                           then
                             (case parse_v2_request json_data of
                                Inl e \<Rightarrow> Inl e
                              | Inr (event_name, art, event_id) \<Rightarrow>
                                  Inr (log_event_data lib st event_name (url rq) art event_id
                                         url_alart url_aleid))
                           else
                             (case parse_v1_request json_data of
                                Inl e \<Rightarrow> Inl e
                              | Inr (event_name, axon_data) \<Rightarrow>
                                  (case dict_get axon_data ''art'' (JString []) of
                                     Inl e \<Rightarrow> Inl e
                                   | Inr art \<Rightarrow>
                                       (case dict_get axon_data ''eventId'' (JString []) of
                                          Inl e \<Rightarrow> Inl e
                                        | Inr event_id \<Rightarrow>
                                            Inr (log_event_data lib st event_name (url rq) art
                                                   event_id url_alart url_aleid))))))))"

definition process_pixel_request :: "pylib \<Rightarrow> analyzer \<Rightarrow> request \<Rightarrow> analyzer" where
  "process_pixel_request lib st rq =
     (case process_pixel_request_body lib st rq of Inl e \<Rightarrow> st | Inr st' \<Rightarrow> st')"

text \<open>One round of the loop over \<open>DOMAINS_OF_INTEREST\<close>.\<close>

definition domain_step :: "string \<Rightarrow> request \<Rightarrow> string \<times> string \<times> bool \<Rightarrow> analyzer \<Rightarrow> analyzer" where
  "domain_step u rq entry st =
     (case entry of (domain, kind, critical) \<Rightarrow>
        if contains domain u
        then (let request_info = \<lparr>info_url = u, info_method = http_method rq,
                                   info_type = resource_type rq, info_critical = critical\<rparr>;
                  nr = a_requests st
              in if domain = ''applovin.com''
                 then st\<lparr>a_requests := nr\<lparr>applovin := applovin nr @ [request_info]\<rparr>\<rparr>
                 else if domain = ''axon.ai''
                 then st\<lparr>a_requests := nr\<lparr>axon_ai := axon_ai nr @ [request_info]\<rparr>\<rparr>
                 else if domain = ''albss.com''
                 then st\<lparr>a_requests := nr\<lparr>albss := albss nr @ [request_info]\<rparr>\<rparr>
                 else st)
        else st)"

definition check_request :: "pylib \<Rightarrow> analyzer \<Rightarrow> request \<Rightarrow> analyzer" where
  "check_request lib st rq =
     (let u = lower (url rq);
          st1 = check_shopify_api_request lib st rq;
          st2 = fold (domain_step u rq) DOMAINS_OF_INTEREST st1
      in if contains ''https://b.applovin.com/'' u \<and> contains ''pixel'' u \<and> http_method rq = ''POST''
         then process_pixel_request lib st2 rq
         else st2)"

section \<open>SiteAnalyzer.check_shopify_indicators\<close>

definition set_shopify :: "bool \<Rightarrow> analyzer \<Rightarrow> analyzer" where
  "set_shopify v st = st\<lparr>a_content := (a_content st)\<lparr>shopify := v\<rparr>\<rparr>"

definition check_shopify_indicators_body ::
  "analyzer \<Rightarrow> page \<Rightarrow> response option \<Rightarrow> py_error + analyzer" where
  "check_shopify_indicators_body st pg resp =
     (if (case resp of
            None \<Rightarrow> False
          | Some r \<Rightarrow>
              contains ''shopify''
                (lower (case map_of (resp_headers r) ''server'' of None \<Rightarrow> [] | Some v \<Rightarrow> v)))
      then Inr (set_shopify True st)
      else if contains ''myshopify.com'' (page_url pg)
      then Inr (set_shopify True st)
      else
        (case link_shopify pg of
           Raises \<Rightarrow> Inl BrowserError
         | Returns has_link \<Rightarrow>
             (case script_shopify pg of
                Raises \<Rightarrow> Inl BrowserError
              | Returns has_script \<Rightarrow>
                  (case page_content pg of
                     Raises \<Rightarrow> Inl BrowserError
                   | Returns c \<Rightarrow>
                       Inr (set_shopify
                              (has_link \<or> has_script \<or> contains ''Shopify.shop'' c) st)))))"

definition check_shopify_indicators :: "analyzer \<Rightarrow> page \<Rightarrow> response option \<Rightarrow> analyzer" where
  "check_shopify_indicators st pg resp =
     (case check_shopify_indicators_body st pg resp of Inl e \<Rightarrow> st | Inr st' \<Rightarrow> st')"

section \<open>SiteAnalyzer.get_results\<close>

record headless_details =
  uses_storefront_api :: bool
  uses_hydrogen :: bool
  uses_buy_sdk :: bool
  has_api_calls :: bool
  api_calls_count :: int

record results =
  r_site :: string
  r_url :: string
  is_shopify :: bool
  is_headless_shopify :: bool
  headless_shopify_details :: headless_details
  has_axon :: bool
  has_gtm :: bool
  has_ga :: bool
  has_ga4 :: bool
  has_land_event :: bool
  has_page_view_event :: bool
  has_page_viewed_event :: bool
  has_axon_ai_requests :: int
  has_albss_requests :: int
  has_matching_aleid :: bool
  has_matching_alart :: bool
  has_applovin_requests :: int
  r_warning :: "string option"

text \<open>\<open>len(xs)\<close>.\<close>

definition len :: "'a list \<Rightarrow> int" where
  "len xs = int (length xs)"

text \<open>The key \<open>warning\<close> is written only for a warning that is neither \<open>None\<close> nor empty.\<close>

definition get_results :: "analyzer \<Rightarrow> string \<Rightarrow> string \<Rightarrow> string option \<Rightarrow> results" where
  "get_results st site_name site_url warning =
     \<lparr>r_site = site_name,
      r_url = site_url,
      is_shopify = shopify (a_content st),
      is_headless_shopify = headless_shopify (a_content st),
      headless_shopify_details =
        \<lparr>uses_storefront_api = storefront_api (a_headless st),
         uses_hydrogen = hydrogen (a_headless st),
         uses_buy_sdk = buy_sdk (a_headless st),
         has_api_calls = api_calls (a_headless st),
         api_calls_count = len (shopify_api (a_requests st))\<rparr>,
      has_axon = axon (a_content st),
      has_gtm = gtm (a_content st),
      has_ga = ga (a_content st),
      has_ga4 = ga4 (a_content st),
      has_land_event = land (a_events st),
      has_page_view_event = page_view (a_events st),
      has_page_viewed_event = page_viewed (a_events st),
      has_axon_ai_requests = len (axon_ai (a_requests st)),
      has_albss_requests = len (albss (a_requests st)),
      has_matching_aleid = aleid (a_matches st),
      has_matching_alart = alart (a_matches st),
      has_applovin_requests = len (applovin (a_requests st)),
      r_warning = (case warning of None \<Rightarrow> None | Some w \<Rightarrow> if w = [] then None else Some w)\<rparr>"

section \<open>SiteAnalyzer.analyze_static\<close>

record tracking_params =
  utm_source :: bool
  utm_medium :: bool
  utm_campaign :: bool

definition set_tracking_param :: "string \<Rightarrow> tracking_params \<Rightarrow> tracking_params" where
  "set_tracking_param k tp =
     (if k = ''utm_source'' then tp\<lparr>utm_source := True\<rparr>
      else if k = ''utm_medium'' then tp\<lparr>utm_medium := True\<rparr>
      else if k = ''utm_campaign'' then tp\<lparr>utm_campaign := True\<rparr>
      else tp)"

text \<open>
  The loop over the keys of \<open>tracking_params\<close>. \<open>query_params[param][0]\<close> raises on an
  empty list; the loop returns the events as it left them, and the parameters found unless
  it raised.
\<close>

fun tracking_loop ::
  "string list \<Rightarrow> (string \<times> string list) list \<Rightarrow> tracking_params \<Rightarrow> events
     \<Rightarrow> events \<times> (py_error + tracking_params)" where
  "tracking_loop [] query_params tp ev = (ev, Inr tp)"
| "tracking_loop (param # rest) query_params tp ev =
     (case map_of query_params param of
        None \<Rightarrow> tracking_loop rest query_params tp ev
      | Some vs \<Rightarrow>
          (case first vs of
             Inl e \<Rightarrow> (ev, Inl e)
           | Inr v \<Rightarrow>
               tracking_loop rest query_params (set_tracking_param param tp)
                 (if lower v = ''applovin'' then ev\<lparr>land := True\<rparr> else ev)))"

text \<open>The result dictionary of the static analysis, its nested dictionaries flattened.\<close>

record static_results =
  s_site :: string
  s_url :: string
  s_analysis_type :: string
  s_domain :: string
  s_aleid :: bool
  s_alart :: bool
  s_utm_source :: bool
  s_utm_medium :: bool
  s_utm_campaign :: bool
  s_shopify :: bool
  s_tracking_present :: bool
  s_land :: bool

text \<open>
  \<open>analyze_static\<close> resets the analyzer first, so it does not read the state it is called
  in; it returns the state it leaves and the results, or the exception.
\<close>

definition analyze_static :: "pylib \<Rightarrow> string \<Rightarrow> string \<Rightarrow> analyzer \<times> (py_error + static_results)" where
  "analyze_static lib site_name u =
     (let st0 = reset_flags;
          parsed_url = urlparse lib u;
          query_params = parse_qs lib (query parsed_url);
          domain = lower (netloc parsed_url);
          st1 = (if contains ''.myshopify.com'' domain \<or> contains ''shopify.com'' domain
                 then set_shopify True st0 else st0);
          st2 = (if map_of query_params ''aleid'' \<noteq> None
                 then st1\<lparr>a_matches := (a_matches st1)\<lparr>aleid := True\<rparr>\<rparr> else st1);
          st3 = (if map_of query_params ''alart'' \<noteq> None
                 then st2\<lparr>a_matches := (a_matches st2)\<lparr>alart := True\<rparr>\<rparr> else st2);
          (ev, r) = tracking_loop [''utm_source'', ''utm_medium'', ''utm_campaign''] query_params
                      \<lparr>utm_source = False, utm_medium = False, utm_campaign = False\<rparr>
                      (a_events st3);
          st4 = st3\<lparr>a_events := ev\<rparr>
      in case r of
           Inl e \<Rightarrow> (st4, Inl e)
         | Inr tp \<Rightarrow>
             (st4,
              Inr \<lparr>s_site = site_name,
                   s_url = u,
                   s_analysis_type = ''static'',
                   s_domain = domain,
                   s_aleid = aleid (a_matches st4),
                   s_alart = alart (a_matches st4),
                   s_utm_source = utm_source tp,
                   s_utm_medium = utm_medium tp,
                   s_utm_campaign = utm_campaign tp,
                   s_shopify = shopify (a_content st4),
                   s_tracking_present =
                     ((utm_source tp \<or> utm_medium tp \<or> utm_campaign tp)
                      \<or> aleid (a_matches st4) \<or> alart (a_matches st4)),
                   s_land = land (a_events st4)\<rparr>))"

section \<open>A session\<close>

text \<open>
  The operations a session feeds to the analyzer after \<open>reset_flags\<close>, and the state after
  a sequence of them.
\<close>

datatype operation =
    CheckPageContent page
  | CheckRequest request
  | CheckShopifyIndicators page "response option"
  | LogEventData json string json json string string

fun apply_operation :: "pylib \<Rightarrow> analyzer \<Rightarrow> operation \<Rightarrow> analyzer" where
  "apply_operation lib st (CheckPageContent pg) = check_page_content st pg"
| "apply_operation lib st (CheckRequest rq) = check_request lib st rq"
| "apply_operation lib st (CheckShopifyIndicators pg resp) = check_shopify_indicators st pg resp"
| "apply_operation lib st (LogEventData event_name version art event_id url_alart url_aleid) =
     log_event_data lib st event_name version art event_id url_alart url_aleid"

definition run_session :: "pylib \<Rightarrow> operation list \<Rightarrow> analyzer" where
  "run_session lib ops = foldl (apply_operation lib) reset_flags ops"

section \<open>The library at the inputs of the examples\<close>

text \<open>
  The values the standard library gives at the inputs used in the examples below:
  \<open>urlparse\<close> and \<open>parse_qs\<close> on three URLs, \<open>json.loads\<close> on two well-formed request
  bodies (it raises on the other strings used), \<open>str\<close> of one headers dictionary and of
  \<open>None\<close>.
\<close>

definition example_lib :: pylib where
  \<open>example_lib =
     \<lparr>urlparse = (\<lambda>u.
        if u = ''https://shop.myshopify.com/?utm_source=applovin''
        then \<lparr>netloc = ''shop.myshopify.com'', query = ''utm_source=applovin''\<rparr>
        else if u = ''https://example.com/?utm_medium=applovin''
        then \<lparr>netloc = ''example.com'', query = ''utm_medium=applovin''\<rparr>
        else if u = ''https://example.com/?alart=A1&aleid=E1''
        then \<lparr>netloc = ''example.com'', query = ''alart=A1&aleid=E1''\<rparr>
        else \<lparr>netloc = [], query = []\<rparr>),
      parse_qs = (\<lambda>q.
        if q = ''utm_source=applovin'' then [(''utm_source'', [''applovin''])]
        else if q = ''utm_medium=applovin'' then [(''utm_medium'', [''applovin''])]
        else if q = ''alart=A1&aleid=E1'' then [(''alart'', [''A1'']), (''aleid'', [''E1''])]
        else []),
      json_loads = (\<lambda>body.
        if body = ''{"name": "land", "applovin": {"art": "A1", "eventId": "E1"}}''
        then Some (JObject [(''name'', JString ''land''),
                            (''applovin'', JObject [(''art'', JString ''A1''),
                                                    (''eventId'', JString ''E1'')])])
        else if body = ''{}'' then Some (JObject [])
        else None),
      str_headers = (\<lambda>h.
        if h = [(''x-shopify-storefront-access-token'', ''token'')]
        then ''{'x-shopify-storefront-access-token': 'token'}''
        else ''{}''),
      str_value = (\<lambda>v. ''None'')\<rparr>\<close>

section \<open>What the headless detector counts\<close>

text \<open>
  The matches that the threshold of the headless detector is about, stated on the elements
  of the page and not as loops. A script element gives one match for each of the three
  package paths that occurs in its \<open>src\<close>, and one more when its inline text holds one of
  the script patterns; a meta element gives one match for each meta-tag pattern that
  occurs in its \<open>name\<close> or in its \<open>content\<close>. An element whose attribute cannot be read
  counts as nothing.
\<close>

definition src_matches :: "string \<Rightarrow> nat" where
  "src_matches src =
     length (filter (\<lambda>p. contains p src)
               [''@shopify/hydrogen'', ''@shopify/storefront-api'', ''shopify-buy''])"

definition inline_matches :: "string \<Rightarrow> nat" where
  "inline_matches t =
     (if list_ex (\<lambda>p. contains (lower p) (lower t)) script_patterns then 1 else 0)"

definition script_matches :: "script_element \<Rightarrow> nat" where
  "script_matches s =
     (case src_attr s of Raises \<Rightarrow> 0 | Returns a \<Rightarrow> src_matches (or_empty a))
     + (case inner_text s of Raises \<Rightarrow> 0 | Returns t \<Rightarrow> inline_matches t)"

definition script_tally :: "script_element list \<Rightarrow> nat" where
  "script_tally scripts = sum_list (map script_matches scripts)"

definition meta_matches :: "meta_element \<Rightarrow> nat" where
  "meta_matches m =
     (case name_attr m of
        Raises \<Rightarrow> 0
      | Returns a \<Rightarrow>
          (case content_attr m of
             Raises \<Rightarrow> 0
           | Returns b \<Rightarrow>
               length (filter (\<lambda>p. contains (lower p) (lower (or_empty a))
                                   \<or> contains (lower p) (lower (or_empty b))) meta_tags)))"

definition meta_tally :: "meta_element list \<Rightarrow> nat" where
  "meta_tally metas = sum_list (map meta_matches metas)"

section \<open>Example pages\<close>

text \<open>
  The pages of the examples below: a page with the given HTML and script elements and one
  \<open>viewport\<close> meta element, at \<open>https://example.com/\<close>, on which neither of the two
  selectors of \<open>check_shopify_indicators\<close> finds an element.
\<close>

definition hydrogen_script :: script_element where
  "hydrogen_script =
     \<lparr>src_attr = Returns (Some ''https://cdn.example.com/@shopify/hydrogen.js''),
      inner_text = Returns []\<rparr>"

definition storefront_script :: script_element where
  "storefront_script =
     \<lparr>src_attr = Returns (Some ''https://cdn.example.com/@shopify/storefront-api.js''),
      inner_text = Returns []\<rparr>"

definition viewport_meta :: meta_element where
  "viewport_meta =
     \<lparr>name_attr = Returns (Some ''viewport''),
      content_attr = Returns (Some ''width=device-width'')\<rparr>"

definition example_page :: "string \<Rightarrow> script_element list \<Rightarrow> page" where
  "example_page html scripts =
     \<lparr>page_content = Returns html,
      page_scripts = Returns scripts,
      page_metas = Returns [viewport_meta],
      page_url = ''https://example.com/'',
      link_shopify = Returns False,
      script_shopify = Returns False\<rparr>"

section \<open>Flags that a session keeps\<close>

text \<open>
  \<open>keeps_flags st st'\<close>: every event flag, every parameter-match flag, every headless
  indicator and the content indicator \<open>headless_shopify\<close> that is true in \<open>st\<close> is true in
  \<open>st'\<close>.
\<close>

definition keeps_flags :: "analyzer \<Rightarrow> analyzer \<Rightarrow> bool" where
  "keeps_flags st st' =
     ((land (a_events st) \<longrightarrow> land (a_events st'))
      \<and> (page_view (a_events st) \<longrightarrow> page_view (a_events st'))
      \<and> (page_viewed (a_events st) \<longrightarrow> page_viewed (a_events st'))
      \<and> (aleid (a_matches st) \<longrightarrow> aleid (a_matches st'))
      \<and> (alart (a_matches st) \<longrightarrow> alart (a_matches st'))
      \<and> (api_calls (a_headless st) \<longrightarrow> api_calls (a_headless st'))
      \<and> (storefront_api (a_headless st) \<longrightarrow> storefront_api (a_headless st'))
      \<and> (hydrogen (a_headless st) \<longrightarrow> hydrogen (a_headless st'))
      \<and> (buy_sdk (a_headless st) \<longrightarrow> buy_sdk (a_headless st'))
      \<and> (headless_shopify (a_content st) \<longrightarrow> headless_shopify (a_content st')))"

section \<open>Substring test\<close>

lemma starts_with_iff: "starts_with pat s \<longleftrightarrow> (\<exists>ss. s = pat @ ss)"
  by (induction pat s rule: starts_with.induct) auto

lemma contains_iff: "contains pat s \<longleftrightarrow> (\<exists>ps ss. s = ps @ pat @ ss)"
proof (induction s)
  case Nil
  then show ?case by auto
next
  case (Cons c cs)
  show ?case
  proof
    assume "contains pat (c # cs)"
    then consider "starts_with pat (c # cs)" | "contains pat cs" by auto
    then show "\<exists>ps ss. c # cs = ps @ pat @ ss"
    proof cases
      case 1
      then obtain ss where "c # cs = pat @ ss" by (auto simp: starts_with_iff)
      then have "c # cs = [] @ pat @ ss" by simp
      then show ?thesis by blast
    next
      case 2
      with Cons obtain ps ss where "cs = ps @ pat @ ss" by auto
      then have "c # cs = (c # ps) @ pat @ ss" by simp
      then show ?thesis by blast
    qed
  next
    assume "\<exists>ps ss. c # cs = ps @ pat @ ss"
    then obtain ps ss where eq: "c # cs = ps @ pat @ ss" by blast
    show "contains pat (c # cs)"
    proof (cases ps)
      case Nil
      with eq have "starts_with pat (c # cs)" by (auto simp: starts_with_iff)
      then show ?thesis by simp
    next
      case (Cons p ps')
      with eq have "cs = ps' @ pat @ ss" by simp
      with Cons.IH have "contains pat cs" by blast
      then show ?thesis by simp
    qed
  qed
qed

lemma contains_single: "contains [c] s \<longleftrightarrow> c \<in> set s"
  by (induction s) auto

section \<open>SiteTester.prepare_url\<close>

text \<open>
  Claim C9. A URL in which neither \<open>aleid=\<close> nor \<open>alart=\<close> occurs is returned with
  \<open>alart=test_identifier1234&aleid=test_identifier5678\<close> appended, after \<open>&\<close> when the
  URL contains \<open>?\<close> and after \<open>?\<close> otherwise; a URL in which one of the two occurs is
  returned as it is.
\<close>

theorem prepare_url_spec:
  "((\<nexists>ps ss. u = ps @ ''aleid='' @ ss) \<and> (\<nexists>ps ss. u = ps @ ''alart='' @ ss) \<longrightarrow>
      prepare_url u =
        u @ (if CHR ''?'' \<in> set u then ''&'' else ''?'')
          @ ''alart=test_identifier1234&aleid=test_identifier5678'')
   \<and> ((\<exists>ps ss. u = ps @ ''aleid='' @ ss) \<or> (\<exists>ps ss. u = ps @ ''alart='' @ ss) \<longrightarrow>
        prepare_url u = u)"
  unfolding contains_iff [symmetric] contains_single [symmetric]
  by (simp add: prepare_url_def)

theorem prepare_url_spec_witness:
  "\<not> contains ''aleid='' ''https://shop.test/p?x=1''
   \<and> \<not> contains ''alart='' ''https://shop.test/p?x=1''
   \<and> prepare_url ''https://shop.test/p?x=1'' =
        ''https://shop.test/p?x=1&alart=test_identifier1234&aleid=test_identifier5678''
   \<and> prepare_url ''https://shop.test/p'' =
        ''https://shop.test/p?alart=test_identifier1234&aleid=test_identifier5678''
   \<and> contains ''aleid='' ''https://shop.test/?aleid=E1''
   \<and> prepare_url ''https://shop.test/?aleid=E1'' = ''https://shop.test/?aleid=E1''"
proof -
  have n1: "\<not> contains ''aleid='' ''https://shop.test/p?x=1''"
    and n2: "\<not> contains ''alart='' ''https://shop.test/p?x=1''"
    and n3: "\<not> contains ''aleid='' ''https://shop.test/p''"
    and n4: "\<not> contains ''alart='' ''https://shop.test/p''"
    and y: "contains ''aleid='' ''https://shop.test/?aleid=E1''"
    by simp_all
  from prepare_url_spec [of "''https://shop.test/p?x=1''"] n1 n2
  have 1: "prepare_url ''https://shop.test/p?x=1'' =
        ''https://shop.test/p?x=1&alart=test_identifier1234&aleid=test_identifier5678''"
    unfolding contains_iff by simp
  from prepare_url_spec [of "''https://shop.test/p''"] n3 n4
  have 2: "prepare_url ''https://shop.test/p'' =
        ''https://shop.test/p?alart=test_identifier1234&aleid=test_identifier5678''"
    unfolding contains_iff by simp
  from prepare_url_spec [of "''https://shop.test/?aleid=E1''"] y
  have 3: "prepare_url ''https://shop.test/?aleid=E1'' = ''https://shop.test/?aleid=E1''"
    unfolding contains_iff by blast
  from n1 n2 y 1 2 3 show ?thesis by blast
qed

section \<open>SiteAnalyzer.get_results\<close>

text \<open>
  Claim C10. In the results, \<open>has_axon_ai_requests\<close>, \<open>has_albss_requests\<close> and
  \<open>has_applovin_requests\<close> are the lengths of the request lists \<open>axon_ai\<close>, \<open>albss\<close> and
  \<open>applovin\<close> (integers, not booleans), and \<open>api_calls_count\<close> is the length of the list
  \<open>shopify_api\<close>; right after \<open>reset_flags\<close> the four are \<open>0\<close>.
\<close>

theorem get_results_counts:
  "has_axon_ai_requests (get_results st site_name site_url warning)
     = int (length (axon_ai (a_requests st)))
   \<and> has_albss_requests (get_results st site_name site_url warning)
     = int (length (albss (a_requests st)))
   \<and> has_applovin_requests (get_results st site_name site_url warning)
     = int (length (applovin (a_requests st)))
   \<and> api_calls_count (headless_shopify_details (get_results st site_name site_url warning))
     = int (length (shopify_api (a_requests st)))
   \<and> has_axon_ai_requests (get_results reset_flags site_name site_url warning) = 0
   \<and> has_albss_requests (get_results reset_flags site_name site_url warning) = 0
   \<and> has_applovin_requests (get_results reset_flags site_name site_url warning) = 0
   \<and> api_calls_count (headless_shopify_details (get_results reset_flags site_name site_url warning))
     = 0"
  by (simp add: get_results_def len_def reset_flags_def)

section \<open>SiteAnalyzer.log_event_data\<close>

text \<open>
  Claim C2. \<open>log_event_data\<close> sets \<open>parameter_matches['alart']\<close> exactly when the payload's
  \<open>art\<close> and the URL's \<open>alart\<close> are two non-empty, equal strings, and
  \<open>parameter_matches['aleid']\<close> exactly when the payload's \<open>eventId\<close> and the URL's
  \<open>aleid\<close> are; otherwise the flag keeps its value. With an empty string on either side
  (also on both) the flag is not set, so that in a fresh session it stays false.
\<close>

theorem log_event_data_matches:
  "alart (a_matches (log_event_data lib st event_name version art event_id url_alart url_aleid))
     = (alart (a_matches st)
        \<or> (\<exists>a. art = JString a \<and> a \<noteq> [] \<and> url_alart \<noteq> [] \<and> a = url_alart))
   \<and> aleid (a_matches (log_event_data lib st event_name version art event_id url_alart url_aleid))
     = (aleid (a_matches st)
        \<or> (\<exists>e. event_id = JString e \<and> e \<noteq> [] \<and> url_aleid \<noteq> [] \<and> e = url_aleid))
   \<and> alart (a_matches (log_event_data lib reset_flags event_name version
                          (JString a) (JString e) url_alart url_aleid))
     = (a \<noteq> [] \<and> url_alart \<noteq> [] \<and> a = url_alart)
   \<and> aleid (a_matches (log_event_data lib reset_flags event_name version
                          (JString a) (JString e) url_alart url_aleid))
     = (e \<noteq> [] \<and> url_aleid \<noteq> [] \<and> e = url_aleid)"
  by (auto simp add: log_event_data_def Let_def reset_flags_def)

section \<open>RequestParser.parse_v1_request\<close>

text \<open>
  Claim C6, as stated, fails: the parser falls back to \<open>axon\<close> on \<open>not applovin_data\<close>,
  which also holds for an \<open>applovin\<close> value that is present and empty. For the payload
  \<open>{name: "land", applovin: {}, axon: {art: "A1"}}\<close> the key \<open>applovin\<close> is present and the
  vendor data returned is the \<open>axon\<close> object.
\<close>

theorem parse_v1_request_fallback_counterexample:
  "map_of [(''name'', JString ''land''), (''applovin'', JObject []),
           (''axon'', JObject [(''art'', JString ''A1'')])] ''applovin'' = Some (JObject [])
   \<and> parse_v1_request
        (JObject [(''name'', JString ''land''), (''applovin'', JObject []),
                  (''axon'', JObject [(''art'', JString ''A1'')])])
      = Inr (JString ''land'', JObject [(''art'', JString ''A1'')])"
  by (simp add: parse_v1_request_def)

text \<open>
  Claim C6, amended. On a JSON object, \<open>parse_v1_request\<close> returns the value of \<open>name\<close>
  (the empty string when the key is missing) and, as vendor data, the value of \<open>applovin\<close>
  when that key is present with a truthy value; when \<open>applovin\<close> is missing or falsy (an
  empty object, \<open>null\<close>, \<open>false\<close>, zero, an empty string or list) it returns the value of
  \<open>axon\<close>, the empty object when \<open>axon\<close> is missing. In particular
  \<open>{name: "land", applovin: {art: "A1", eventId: "E1"}}\<close> gives
  \<open>("land", {art: "A1", eventId: "E1"})\<close>.
\<close>

theorem parse_v1_request_spec:
  "parse_v1_request (JObject kvs) =
     Inr (case map_of kvs ''name'' of None \<Rightarrow> JString [] | Some n \<Rightarrow> n,
          case map_of kvs ''applovin'' of
            None \<Rightarrow> (case map_of kvs ''axon'' of None \<Rightarrow> JObject [] | Some x \<Rightarrow> x)
          | Some a \<Rightarrow>
              if truthy a then a
              else (case map_of kvs ''axon'' of None \<Rightarrow> JObject [] | Some x \<Rightarrow> x))
   \<and> parse_v1_request
        (JObject [(''name'', JString ''land''),
                  (''applovin'', JObject [(''art'', JString ''A1''), (''eventId'', JString ''E1'')])])
      = Inr (JString ''land'', JObject [(''art'', JString ''A1''), (''eventId'', JString ''E1'')])"
  by (simp add: parse_v1_request_def split: option.splits)

section \<open>SiteAnalyzer._check_shopify_api_request\<close>

lemma endpoint_loop_eq:
  "endpoint_loop ps u rq st n =
     (if list_ex (\<lambda>e. contains (lower e) u) ps
      then (log_shopify_api_request (st\<lparr>a_headless := (a_headless st)\<lparr>api_calls := True\<rparr>\<rparr>) rq,
            n + 1)
      else (st, n))"
  by (induction ps) simp_all

lemma header_loop_eq:
  "header_loop ps hs rq st n =
     (if list_ex (\<lambda>h. contains (lower h) (lower hs)) ps
      then (log_shopify_api_request (st\<lparr>a_headless := (a_headless st)\<lparr>api_calls := True\<rparr>\<rparr>) rq,
            n + 1)
      else (st, n))"
  by (induction ps) simp_all

text \<open>
  Claim C4. For a request, let the endpoint match be that some API endpoint (lower-cased)
  occurs in the lower-cased URL, and the header match that some Shopify header name
  (lower-cased) occurs in the lower-cased \<open>str(headers)\<close>. The sub-check sets \<open>api_calls\<close>
  as soon as one of the two holds, appends the request's record to \<open>shopify_api\<close> for each
  of the two that holds (and nothing when neither does), and sets \<open>headless_shopify\<close> only
  when both hold, which is when the count for the request reaches 2.
\<close>

theorem check_shopify_api_request_spec:
  "api_calls (a_headless (check_shopify_api_request lib st rq))
     = (api_calls (a_headless st)
        \<or> list_ex (\<lambda>e. contains (lower e) (lower (url rq))) api_endpoints
        \<or> list_ex (\<lambda>h. contains (lower h) (lower (str_headers lib (headers rq)))) request_headers)
   \<and> shopify_api (a_requests (check_shopify_api_request lib st rq))
     = shopify_api (a_requests st)
       @ replicate
           (of_bool (list_ex (\<lambda>e. contains (lower e) (lower (url rq))) api_endpoints)
            + of_bool (list_ex (\<lambda>h. contains (lower h) (lower (str_headers lib (headers rq))))
                        request_headers))
           \<lparr>api_url = url rq, api_method = http_method rq, api_type = resource_type rq,
            api_headers = headers rq\<rparr>
   \<and> headless_shopify (a_content (check_shopify_api_request lib st rq))
     = (headless_shopify (a_content st)
        \<or> (list_ex (\<lambda>e. contains (lower e) (lower (url rq))) api_endpoints
           \<and> list_ex (\<lambda>h. contains (lower h) (lower (str_headers lib (headers rq))))
                request_headers))"
  by (simp add: check_shopify_api_request_def endpoint_loop_eq header_loop_eq
      log_shopify_api_request_def Let_def)

text \<open>
  Claim C5 holds for the lists \<open>axon_ai\<close>, \<open>albss\<close>, \<open>applovin\<close> and \<open>tracking\<close>, and the
  code breaks it for \<open>shopify_api\<close>: the endpoint loop and the header loop each log the
  request. For a POST to \<open>https://checkout.shopify.com/api/graphql\<close> that carries the header
  \<open>x-shopify-storefront-access-token\<close>, one call of \<open>check_request\<close> in a fresh session leaves
  the same record twice in \<open>shopify_api\<close>.
\<close>

theorem check_request_logs_twice:
  "shopify_api (a_requests (check_request example_lib reset_flags
      \<lparr>url = ''https://checkout.shopify.com/api/graphql'', http_method = ''POST'',
       resource_type = ''fetch'',
       headers = [(''x-shopify-storefront-access-token'', ''token'')],
       post_data = Returns None, frame_page_url = Returns ''https://example.com/''\<rparr>))
   = [\<lparr>api_url = ''https://checkout.shopify.com/api/graphql'', api_method = ''POST'',
       api_type = ''fetch'', api_headers = [(''x-shopify-storefront-access-token'', ''token'')]\<rparr>,
      \<lparr>api_url = ''https://checkout.shopify.com/api/graphql'', api_method = ''POST'',
       api_type = ''fetch'', api_headers = [(''x-shopify-storefront-access-token'', ''token'')]\<rparr>]"
  by code_simp

section \<open>SiteAnalyzer._process_pixel_request\<close>

text \<open>
  Claim C8. When the POST body of a pixel request is absent (\<open>None\<close> or empty) or
  \<open>json.loads\<close> raises on it, \<open>_process_pixel_request\<close> returns (its \<open>except\<close> clause
  swallows the exception) and the analyzer is left as it was: events, parameter matches,
  indicators and request lists.
\<close>

theorem process_pixel_request_bad_body:
  "post_data rq = Returns None \<or> post_data rq = Returns (Some [])
     \<or> (\<exists>body. post_data rq = Returns (Some body) \<and> json_loads lib body = None)
   \<Longrightarrow> process_pixel_request lib st rq = st"
  by (auto simp add: process_pixel_request_def process_pixel_request_body_def
      split: outcome.splits sum.splits option.splits prod.splits)

theorem process_pixel_request_bad_body_witness:
  "post_data \<lparr>url = ''https://b.applovin.com/v1/pixel'', http_method = ''POST'',
       resource_type = ''fetch'', headers = [],
       post_data = Returns (Some ''not json''),
       frame_page_url = Returns ''https://example.com/?alart=A1&aleid=E1''\<rparr>
     = Returns (Some ''not json'')
   \<and> json_loads example_lib ''not json'' = None
   \<and> process_pixel_request example_lib reset_flags
       \<lparr>url = ''https://b.applovin.com/v1/pixel'', http_method = ''POST'',
        resource_type = ''fetch'', headers = [],
        post_data = Returns (Some ''not json''),
        frame_page_url = Returns ''https://example.com/?alart=A1&aleid=E1''\<rparr>
     = reset_flags"
  using process_pixel_request_bad_body [of
      "\<lparr>url = ''https://b.applovin.com/v1/pixel'', http_method = ''POST'',
        resource_type = ''fetch'', headers = [],
        post_data = Returns (Some ''not json''),
        frame_page_url = Returns ''https://example.com/?alart=A1&aleid=E1''\<rparr>"
      example_lib reset_flags]
  by (simp add: example_lib_def)

section \<open>SiteAnalyzer.analyze_static\<close>

lemma tracking_loop_land:
  "tracking_loop ps qp tp ev = (ev', Inr tp') \<Longrightarrow>
     land ev' = (land ev \<or> (\<exists>p\<in>set ps. \<exists>v vs. map_of qp p = Some (v # vs) \<and> lower v = ''applovin''))"
proof (induction ps arbitrary: tp ev)
  case Nil
  then show ?case by simp
next
  case (Cons p ps)
  show ?case
  proof (cases "map_of qp p")
    case None
    with Cons show ?thesis by simp
  next
    case (Some vs)
    show ?thesis
    proof (cases vs)
      case Nil
      with Some Cons.prems show ?thesis by (simp add: first_def)
    next
      case (Cons v vs')
      with Some Cons.prems have
        "tracking_loop ps qp (set_tracking_param p tp)
           (if lower v = ''applovin'' then ev\<lparr>land := True\<rparr> else ev) = (ev', Inr tp')"
        by (simp add: first_def)
      from Cons.IH [OF this] Some Cons show ?thesis by auto
    qed
  qed
qed

lemma tracking_loop_returns:
  "\<forall>p\<in>set ps. map_of qp p \<noteq> Some [] \<Longrightarrow> \<exists>ev' tp'. tracking_loop ps qp tp ev = (ev', Inr tp')"
proof (induction ps arbitrary: tp ev)
  case Nil
  then show ?case by simp
next
  case (Cons p ps)
  then show ?case
    by (cases "map_of qp p") (auto simp: first_def split: list.splits)
qed

lemma contains_myshopify:
  assumes "contains ''.myshopify.com'' d"
  shows "contains ''shopify.com'' d"
proof -
  from assms obtain ps ss where "d = ps @ ''.myshopify.com'' @ ss"
    by (auto simp: contains_iff)
  then have "d = (ps @ ''.my'') @ ''shopify.com'' @ ss" by simp
  then show ?thesis unfolding contains_iff by blast
qed

lemma contains_myshopify':
  assumes "contains ''myshopify.com'' d"
  shows "contains ''shopify.com'' d"
proof -
  from assms obtain ps ss where "d = ps @ ''myshopify.com'' @ ss"
    by (auto simp: contains_iff)
  then have "d = (ps @ ''my'') @ ''shopify.com'' @ ss" by simp
  then show ?thesis unfolding contains_iff by blast
qed

lemma analyze_static_snd:
  assumes "snd (analyze_static lib site_name u) = Inr r"
  shows "\<exists>ev tp.
           tracking_loop [''utm_source'', ''utm_medium'', ''utm_campaign'']
             (parse_qs lib (query (urlparse lib u)))
             \<lparr>utm_source = False, utm_medium = False, utm_campaign = False\<rparr>
             (a_events reset_flags) = (ev, Inr tp)
           \<and> s_land r = land ev
           \<and> s_shopify r =
               (contains ''.myshopify.com'' (lower (netloc (urlparse lib u)))
                \<or> contains ''shopify.com'' (lower (netloc (urlparse lib u))))"
  using assms
  by (cases "contains ''.myshopify.com'' (lower (netloc (urlparse lib u)))";
      cases "contains ''shopify.com'' (lower (netloc (urlparse lib u)))";
      cases "map_of (parse_qs lib (query (urlparse lib u))) ''aleid''";
      cases "map_of (parse_qs lib (query (urlparse lib u))) ''alart''")
     (auto simp: analyze_static_def Let_def set_shopify_def reset_flags_def
        simp del: tracking_loop.simps split: prod.splits sum.splits)

lemma analyze_static_Inr:
  assumes "tracking_loop [''utm_source'', ''utm_medium'', ''utm_campaign'']
             (parse_qs lib (query (urlparse lib u)))
             \<lparr>utm_source = False, utm_medium = False, utm_campaign = False\<rparr>
             (a_events reset_flags) = (ev, Inr tp)"
  shows "\<exists>r. snd (analyze_static lib site_name u) = Inr r"
  using assms
  by (cases "contains ''.myshopify.com'' (lower (netloc (urlparse lib u)))";
      cases "contains ''shopify.com'' (lower (netloc (urlparse lib u)))";
      cases "map_of (parse_qs lib (query (urlparse lib u))) ''aleid''";
      cases "map_of (parse_qs lib (query (urlparse lib u))) ''alart''")
     (auto simp: analyze_static_def Let_def set_shopify_def reset_flags_def
        simp del: tracking_loop.simps split: prod.splits sum.splits)

lemma analyze_static_result:
  assumes "snd (analyze_static lib site_name u) = Inr r"
  shows "s_land r =
           (\<exists>p\<in>set [''utm_source'', ''utm_medium'', ''utm_campaign''].
              \<exists>v vs. map_of (parse_qs lib (query (urlparse lib u))) p = Some (v # vs)
                \<and> lower v = ''applovin'')"
    and "s_shopify r =
           (contains ''myshopify.com'' (lower (netloc (urlparse lib u)))
            \<or> contains ''shopify.com'' (lower (netloc (urlparse lib u))))"
proof -
  let ?qp = "parse_qs lib (query (urlparse lib u))"
  let ?ps = "[''utm_source'', ''utm_medium'', ''utm_campaign'']"
  let ?tp0 = "\<lparr>utm_source = False, utm_medium = False, utm_campaign = False\<rparr>"
  from analyze_static_snd [OF assms] obtain ev tp where
    loop: "tracking_loop ?ps ?qp ?tp0 (a_events reset_flags) = (ev, Inr tp)"
    and land: "s_land r = land ev"
    and shop: "s_shopify r =
      (contains ''.myshopify.com'' (lower (netloc (urlparse lib u)))
       \<or> contains ''shopify.com'' (lower (netloc (urlparse lib u))))"
    by blast
  from tracking_loop_land [OF loop] land
  show "s_land r = (\<exists>p\<in>set ?ps. \<exists>v vs. map_of ?qp p = Some (v # vs) \<and> lower v = ''applovin'')"
    by (simp add: reset_flags_def)
  from shop show "s_shopify r =
      (contains ''myshopify.com'' (lower (netloc (urlparse lib u)))
       \<or> contains ''shopify.com'' (lower (netloc (urlparse lib u))))"
    using contains_myshopify contains_myshopify' by blast
qed

lemma analyze_static_returns:
  assumes "\<forall>p\<in>set [''utm_source'', ''utm_medium'', ''utm_campaign''].
             map_of (parse_qs lib (query (urlparse lib u))) p \<noteq> Some []"
  shows "\<exists>r. snd (analyze_static lib site_name u) = Inr r"
  using tracking_loop_returns [OF assms] analyze_static_Inr by blast

text \<open>
  Claim C7, as stated, fails: the test for \<open>applovin\<close> is made inside the loop over
  \<open>utm_source\<close>, \<open>utm_medium\<close> and \<open>utm_campaign\<close>, on the first value of each parameter
  that is present. For \<open>https://example.com/?utm_medium=applovin\<close> the query has no
  \<open>utm_source\<close> and the land event is flagged.
\<close>

theorem analyze_static_medium_counterexample:
  "\<not> contains ''utm_source'' (query (urlparse example_lib ''https://example.com/?utm_medium=applovin''))
   \<and> snd (analyze_static example_lib ''site'' ''https://example.com/?utm_medium=applovin'')
      = Inr \<lparr>s_site = ''site'', s_url = ''https://example.com/?utm_medium=applovin'',
             s_analysis_type = ''static'', s_domain = ''example.com'',
             s_aleid = False, s_alart = False,
             s_utm_source = False, s_utm_medium = True, s_utm_campaign = False,
             s_shopify = False, s_tracking_present = True, s_land = True\<rparr>"
  by code_simp

text \<open>
  Claim C7, amended. When \<open>analyze_static\<close> returns its results, the land event is flagged
  if and only if, for at least one of the query parameters \<open>utm_source\<close>, \<open>utm_medium\<close>
  and \<open>utm_campaign\<close>, the first value is \<open>applovin\<close> in any letter case; the shopify
  indicator is true if and only if the lower-cased network location of the URL contains
  \<open>myshopify.com\<close> or \<open>shopify.com\<close>. It returns its results whenever \<open>parse_qs\<close>
  gives no empty list of values. In particular, for
  \<open>https://shop.myshopify.com/?utm_source=applovin\<close> the shopify indicator and the land
  event are both true.
\<close>

theorem analyze_static_spec:
  "(snd (analyze_static lib site_name u) = Inr r \<longrightarrow>
      s_land r =
        (\<exists>p\<in>set [''utm_source'', ''utm_medium'', ''utm_campaign''].
           \<exists>v vs. map_of (parse_qs lib (query (urlparse lib u))) p = Some (v # vs)
             \<and> lower v = ''applovin'')
      \<and> s_shopify r =
          (contains ''myshopify.com'' (lower (netloc (urlparse lib u)))
           \<or> contains ''shopify.com'' (lower (netloc (urlparse lib u)))))
   \<and> ((\<forall>p\<in>set [''utm_source'', ''utm_medium'', ''utm_campaign''].
          map_of (parse_qs lib (query (urlparse lib u))) p \<noteq> Some [])
       \<longrightarrow> (\<exists>r'. snd (analyze_static lib site_name u) = Inr r'))
   \<and> (urlparse lib ''https://shop.myshopify.com/?utm_source=applovin''
         = \<lparr>netloc = ''shop.myshopify.com'', query = ''utm_source=applovin''\<rparr>
       \<and> parse_qs lib ''utm_source=applovin'' = [(''utm_source'', [''applovin''])]
       \<longrightarrow> (\<exists>r'. snd (analyze_static lib site_name
                          ''https://shop.myshopify.com/?utm_source=applovin'') = Inr r'
                \<and> s_shopify r' \<and> s_land r'))"
proof (intro conjI impI)
  assume "snd (analyze_static lib site_name u) = Inr r"
  then show "s_land r =
        (\<exists>p\<in>set [''utm_source'', ''utm_medium'', ''utm_campaign''].
           \<exists>v vs. map_of (parse_qs lib (query (urlparse lib u))) p = Some (v # vs)
             \<and> lower v = ''applovin'')"
    and "s_shopify r =
          (contains ''myshopify.com'' (lower (netloc (urlparse lib u)))
           \<or> contains ''shopify.com'' (lower (netloc (urlparse lib u))))"
    by (rule analyze_static_result)+
next
  assume "\<forall>p\<in>set [''utm_source'', ''utm_medium'', ''utm_campaign''].
          map_of (parse_qs lib (query (urlparse lib u))) p \<noteq> Some []"
  then show "\<exists>r'. snd (analyze_static lib site_name u) = Inr r'"
    by (rule analyze_static_returns)
next
  assume "urlparse lib ''https://shop.myshopify.com/?utm_source=applovin''
         = \<lparr>netloc = ''shop.myshopify.com'', query = ''utm_source=applovin''\<rparr>
       \<and> parse_qs lib ''utm_source=applovin'' = [(''utm_source'', [''applovin''])]"
  then show "\<exists>r'. snd (analyze_static lib site_name
                          ''https://shop.myshopify.com/?utm_source=applovin'') = Inr r'
                \<and> s_shopify r' \<and> s_land r'"
    by (simp add: analyze_static_def Let_def lower_def lower_char_def first_def
        set_tracking_param_def set_shopify_def reset_flags_def)
qed

theorem analyze_static_spec_witness:
  "urlparse example_lib ''https://shop.myshopify.com/?utm_source=applovin''
     = \<lparr>netloc = ''shop.myshopify.com'', query = ''utm_source=applovin''\<rparr>
   \<and> parse_qs example_lib ''utm_source=applovin'' = [(''utm_source'', [''applovin''])]
   \<and> map_of (parse_qs example_lib ''utm_source=applovin'') ''utm_source'' = Some [''applovin'']
   \<and> map_of (parse_qs example_lib ''utm_source=applovin'') ''utm_medium'' = None
   \<and> map_of (parse_qs example_lib ''utm_source=applovin'') ''utm_campaign'' = None
   \<and> snd (analyze_static example_lib ''shop''
             ''https://shop.myshopify.com/?utm_source=applovin'')
      = Inr \<lparr>s_site = ''shop'', s_url = ''https://shop.myshopify.com/?utm_source=applovin'',
             s_analysis_type = ''static'', s_domain = ''shop.myshopify.com'',
             s_aleid = False, s_alart = False,
             s_utm_source = True, s_utm_medium = False, s_utm_campaign = False,
             s_shopify = True, s_tracking_present = True, s_land = True\<rparr>
   \<and> (\<exists>r'. snd (analyze_static example_lib ''shop''
                   ''https://shop.myshopify.com/?utm_source=applovin'') = Inr r'
          \<and> s_shopify r' \<and> s_land r')"
proof -
  have l1: "urlparse example_lib ''https://shop.myshopify.com/?utm_source=applovin''
     = \<lparr>netloc = ''shop.myshopify.com'', query = ''utm_source=applovin''\<rparr>"
    by code_simp
  have l2: "parse_qs example_lib ''utm_source=applovin'' = [(''utm_source'', [''applovin''])]"
    by code_simp
  have l3: "map_of (parse_qs example_lib ''utm_source=applovin'') ''utm_source''
              = Some [''applovin'']"
    "map_of (parse_qs example_lib ''utm_source=applovin'') ''utm_medium'' = None"
    "map_of (parse_qs example_lib ''utm_source=applovin'') ''utm_campaign'' = None"
    unfolding l2 by simp_all
  have h: "snd (analyze_static example_lib ''shop''
             ''https://shop.myshopify.com/?utm_source=applovin'')
      = Inr \<lparr>s_site = ''shop'', s_url = ''https://shop.myshopify.com/?utm_source=applovin'',
             s_analysis_type = ''static'', s_domain = ''shop.myshopify.com'',
             s_aleid = False, s_alart = False,
             s_utm_source = True, s_utm_medium = False, s_utm_campaign = False,
             s_shopify = True, s_tracking_present = True, s_land = True\<rparr>"
    by code_simp
  from analyze_static_spec [of example_lib "''shop''"
      "''https://shop.myshopify.com/?utm_source=applovin''"
      "\<lparr>s_site = ''shop'', s_url = ''https://shop.myshopify.com/?utm_source=applovin'',
        s_analysis_type = ''static'', s_domain = ''shop.myshopify.com'',
        s_aleid = False, s_alart = False,
        s_utm_source = True, s_utm_medium = False, s_utm_campaign = False,
        s_shopify = True, s_tracking_present = True, s_land = True\<rparr>"] l1 l2
  have "\<exists>r'. snd (analyze_static example_lib ''shop''
                   ''https://shop.myshopify.com/?utm_source=applovin'') = Inr r'
          \<and> s_shopify r' \<and> s_land r'"
    by blast
  with l1 l2 l3 h show ?thesis by blast
qed

section \<open>SiteAnalyzer.check_page_content\<close>

lemma tracking_fold:
  "fold (\<lambda>(indicator, patterns). set_indicator indicator (g patterns)) TRACKING_INDICATORS ci
     = ci\<lparr>shopify := g (the (map_of TRACKING_INDICATORS ''shopify'')),
          gtm := g (the (map_of TRACKING_INDICATORS ''gtm'')),
          axon := g (the (map_of TRACKING_INDICATORS ''axon'')),
          ga := g (the (map_of TRACKING_INDICATORS ''ga'')),
          ga4 := g (the (map_of TRACKING_INDICATORS ''ga4''))\<rparr>"
  by (simp add: TRACKING_INDICATORS_def set_indicator_def)

lemma inline_loop_eq:
  "inline_loop ps sc found = found + (if list_ex (\<lambda>p. contains (lower p) sc) ps then 1 else 0)"
  by (induction ps) simp_all

lemma meta_pattern_loop_eq:
  "meta_pattern_loop ps name content found =
     found + length (filter (\<lambda>p. contains (lower p) (lower name)
                               \<or> contains (lower p) (lower content)) ps)"
  by (induction ps arbitrary: found) simp_all

lemma scripts_loop_Cons:
  assumes "src_attr s = Returns a"
  shows "scripts_loop (s # rest) hi found =
     scripts_loop rest
       (hi\<lparr>hydrogen := hydrogen hi \<or> contains ''@shopify/hydrogen'' (or_empty a),
           storefront_api := storefront_api hi \<or> contains ''@shopify/storefront-api'' (or_empty a),
           buy_sdk := buy_sdk hi \<or> contains ''shopify-buy'' (or_empty a)\<rparr>)
       (found + script_matches s)"
  using assms
  by (cases "contains ''@shopify/hydrogen'' (or_empty a)";
      cases "contains ''@shopify/storefront-api'' (or_empty a)";
      cases "contains ''shopify-buy'' (or_empty a)";
      cases "inner_text s")
     (simp_all add: script_matches_def src_matches_def inline_matches_def inline_loop_eq)

lemma scripts_loop_count:
  "scripts_loop scripts hi found = (hi', Some n) \<Longrightarrow> n = found + script_tally scripts"
proof (induction scripts arbitrary: hi found)
  case Nil
  then show ?case by (simp add: script_tally_def)
next
  case (Cons s scripts)
  from Cons.prems obtain a where a: "src_attr s = Returns a"
    by (cases "src_attr s") auto
  from Cons.prems Cons.IH show ?case
    unfolding scripts_loop_Cons [OF a] by (fastforce simp: script_tally_def)
qed

lemma scripts_loop_returns:
  "\<forall>s\<in>set scripts. src_attr s \<noteq> Raises \<Longrightarrow>
     \<exists>hi'. scripts_loop scripts hi found = (hi', Some (found + script_tally scripts))"
proof (induction scripts arbitrary: hi found)
  case Nil
  then show ?case by (simp add: script_tally_def)
next
  case (Cons s scripts)
  then obtain a where a: "src_attr s = Returns a"
    by (cases "src_attr s") auto
  from Cons.prems have rest: "\<forall>s\<in>set scripts. src_attr s \<noteq> Raises" by simp
  from Cons.IH [OF rest,
      of "hi\<lparr>hydrogen := hydrogen hi \<or> contains ''@shopify/hydrogen'' (or_empty a),
            storefront_api := storefront_api hi \<or> contains ''@shopify/storefront-api'' (or_empty a),
            buy_sdk := buy_sdk hi \<or> contains ''shopify-buy'' (or_empty a)\<rparr>"
         "found + script_matches s"]
  show ?case
    unfolding scripts_loop_Cons [OF a] by (simp add: script_tally_def add.assoc)
qed

lemma scripts_loop_keeps:
  "scripts_loop scripts hi found = (hi', r) \<Longrightarrow>
     (hydrogen hi \<longrightarrow> hydrogen hi') \<and> (storefront_api hi \<longrightarrow> storefront_api hi')
     \<and> (buy_sdk hi \<longrightarrow> buy_sdk hi') \<and> api_calls hi' = api_calls hi"
proof (induction scripts arbitrary: hi found)
  case Nil
  then show ?case by simp
next
  case (Cons s scripts)
  show ?case
  proof (cases "src_attr s")
    case Raises
    with Cons.prems show ?thesis by simp
  next
    case (Returns a)
    from Cons.prems have
      "scripts_loop scripts
         (hi\<lparr>hydrogen := hydrogen hi \<or> contains ''@shopify/hydrogen'' (or_empty a),
             storefront_api := storefront_api hi \<or> contains ''@shopify/storefront-api'' (or_empty a),
             buy_sdk := buy_sdk hi \<or> contains ''shopify-buy'' (or_empty a)\<rparr>)
         (found + script_matches s) = (hi', r)"
      unfolding scripts_loop_Cons [OF Returns] .
    from Cons.IH [OF this] show ?thesis by simp
  qed
qed

lemma scripts_loop_flags:
  assumes "\<forall>x\<in>set pre. src_attr x \<noteq> Raises" and "src_attr s = Returns (Some src)"
    and "scripts_loop (pre @ s # post) hi found = (hi', r)"
  shows "(contains ''@shopify/hydrogen'' src \<longrightarrow> hydrogen hi')
     \<and> (contains ''@shopify/storefront-api'' src \<longrightarrow> storefront_api hi')
     \<and> (contains ''shopify-buy'' src \<longrightarrow> buy_sdk hi')"
  using assms
proof (induction pre arbitrary: hi found)
  case Nil
  from Nil.prems(3) have
    "scripts_loop post
       (hi\<lparr>hydrogen := hydrogen hi \<or> contains ''@shopify/hydrogen'' src,
           storefront_api := storefront_api hi \<or> contains ''@shopify/storefront-api'' src,
           buy_sdk := buy_sdk hi \<or> contains ''shopify-buy'' src\<rparr>)
       (found + script_matches s) = (hi', r)"
    unfolding append_Nil scripts_loop_Cons [OF Nil.prems(2)] by (simp add: or_empty_def)
  from scripts_loop_keeps [OF this] show ?case by simp
next
  case (Cons x pre)
  then obtain a where a: "src_attr x = Returns a"
    by (cases "src_attr x") auto
  from Cons.prems(3) have
    "scripts_loop (pre @ s # post)
       (hi\<lparr>hydrogen := hydrogen hi \<or> contains ''@shopify/hydrogen'' (or_empty a),
           storefront_api := storefront_api hi \<or> contains ''@shopify/storefront-api'' (or_empty a),
           buy_sdk := buy_sdk hi \<or> contains ''shopify-buy'' (or_empty a)\<rparr>)
       (found + script_matches x) = (hi', r)"
    unfolding append_Cons scripts_loop_Cons [OF a] .
  with Cons.IH Cons.prems(1,2) show ?case by simp
qed

lemma meta_loop_count:
  "meta_loop metas found = Some n \<Longrightarrow> n = found + meta_tally metas"
proof (induction metas arbitrary: found)
  case Nil
  then show ?case by (simp add: meta_tally_def)
next
  case (Cons m metas)
  from Cons.prems obtain a b where ab: "name_attr m = Returns a" "content_attr m = Returns b"
    by (cases "name_attr m"; cases "content_attr m") auto
  with Cons.prems have "meta_loop metas (found + meta_matches m) = Some n"
    by (simp add: meta_matches_def meta_pattern_loop_eq)
  from Cons.IH [OF this] show ?case by (simp add: meta_tally_def)
qed

lemma meta_loop_returns:
  "\<forall>m\<in>set metas. name_attr m \<noteq> Raises \<and> content_attr m \<noteq> Raises \<Longrightarrow>
     meta_loop metas found = Some (found + meta_tally metas)"
proof (induction metas arbitrary: found)
  case Nil
  then show ?case by (simp add: meta_tally_def)
next
  case (Cons m metas)
  then obtain a b where ab: "name_attr m = Returns a" "content_attr m = Returns b"
    by (cases "name_attr m"; cases "content_attr m") auto
  with Cons show ?case
    by (simp add: meta_matches_def meta_pattern_loop_eq meta_tally_def add.assoc)
qed

lemma scripts_check_headless:
  "headless_shopify (a_content (check_headless_shopify_scripts st pg)) =
     (headless_shopify (a_content st)
      \<or> (\<exists>scripts hi n. page_scripts pg = Returns scripts
            \<and> scripts_loop scripts (a_headless st) 0 = (hi, Some n) \<and> 2 \<le> n))"
  by (auto simp: check_headless_shopify_scripts_def
      split: outcome.splits prod.splits option.splits)

lemma scripts_check_a_headless:
  "page_scripts pg = Returns scripts \<Longrightarrow>
     a_headless (check_headless_shopify_scripts st pg) = fst (scripts_loop scripts (a_headless st) 0)"
  by (auto simp: check_headless_shopify_scripts_def split: prod.splits option.splits)

lemma scripts_check_keeps:
  "a_events (check_headless_shopify_scripts st pg) = a_events st
   \<and> a_matches (check_headless_shopify_scripts st pg) = a_matches st
   \<and> a_requests (check_headless_shopify_scripts st pg) = a_requests st
   \<and> (hydrogen (a_headless st) \<longrightarrow> hydrogen (a_headless (check_headless_shopify_scripts st pg)))
   \<and> (storefront_api (a_headless st)
        \<longrightarrow> storefront_api (a_headless (check_headless_shopify_scripts st pg)))
   \<and> (buy_sdk (a_headless st) \<longrightarrow> buy_sdk (a_headless (check_headless_shopify_scripts st pg)))
   \<and> api_calls (a_headless (check_headless_shopify_scripts st pg)) = api_calls (a_headless st)"
proof (cases "page_scripts pg")
  case Raises
  then show ?thesis by (simp add: check_headless_shopify_scripts_def)
next
  case (Returns scripts)
  obtain hi r where loop: "scripts_loop scripts (a_headless st) 0 = (hi, r)"
    by (cases "scripts_loop scripts (a_headless st) 0")
  from scripts_loop_keeps [OF loop] Returns loop show ?thesis
    by (cases r) (simp_all add: check_headless_shopify_scripts_def)
qed

lemma meta_check_headless:
  "headless_shopify (a_content (check_headless_shopify_meta_tags st pg)) =
     (headless_shopify (a_content st)
      \<or> (\<exists>metas n. page_metas pg = Returns metas \<and> meta_loop metas 0 = Some n \<and> 2 \<le> n))"
  by (auto simp: check_headless_shopify_meta_tags_def split: outcome.splits option.splits)

lemma meta_check_keeps:
  "a_events (check_headless_shopify_meta_tags st pg) = a_events st
   \<and> a_matches (check_headless_shopify_meta_tags st pg) = a_matches st
   \<and> a_requests (check_headless_shopify_meta_tags st pg) = a_requests st
   \<and> a_headless (check_headless_shopify_meta_tags st pg) = a_headless st"
  by (simp add: check_headless_shopify_meta_tags_def split: outcome.splits option.splits)

lemma check_page_content_Returns:
  assumes "page_content pg = Returns c"
  shows "check_page_content st pg =
     check_headless_shopify_meta_tags
       (check_headless_shopify_scripts
          (st\<lparr>a_content :=
                fold (\<lambda>(indicator, patterns).
                        set_indicator indicator
                          (list_ex (\<lambda>pattern. contains (lower pattern) (lower c)) patterns))
                  TRACKING_INDICATORS (a_content st)\<rparr>) pg) pg"
  using assms by (simp add: check_page_content_def Let_def)

lemma check_page_content_headless:
  assumes "page_content pg = Returns c"
  shows "headless_shopify (a_content (check_page_content st pg)) =
     (headless_shopify (a_content st)
      \<or> (\<exists>scripts hi n. page_scripts pg = Returns scripts
            \<and> scripts_loop scripts (a_headless st) 0 = (hi, Some n) \<and> 2 \<le> n)
      \<or> (\<exists>metas n. page_metas pg = Returns metas \<and> meta_loop metas 0 = Some n \<and> 2 \<le> n))"
  unfolding check_page_content_Returns [OF assms] meta_check_headless scripts_check_headless
  by (simp add: tracking_fold)

lemma check_page_content_a_headless:
  assumes "page_content pg = Returns c" and "page_scripts pg = Returns scripts"
  shows "a_headless (check_page_content st pg) = fst (scripts_loop scripts (a_headless st) 0)"
  unfolding check_page_content_Returns [OF assms(1)]
  by (simp add: meta_check_keeps scripts_check_a_headless [OF assms(2)])

lemma check_page_content_only_when:
  assumes "headless_shopify (a_content (check_page_content st pg))"
  shows "headless_shopify (a_content st)
     \<or> (\<exists>scripts. page_scripts pg = Returns scripts \<and> 2 \<le> script_tally scripts)
     \<or> (\<exists>metas. page_metas pg = Returns metas \<and> 2 \<le> meta_tally metas)"
proof (cases "page_content pg")
  case Raises
  with assms show ?thesis by (simp add: check_page_content_def)
next
  case (Returns c)
  from assms consider "headless_shopify (a_content st)"
    | scripts hi n where "page_scripts pg = Returns scripts"
        "scripts_loop scripts (a_headless st) 0 = (hi, Some n)" "2 \<le> n"
    | metas n where "page_metas pg = Returns metas" "meta_loop metas 0 = Some n" "2 \<le> n"
    unfolding check_page_content_headless [OF Returns] by blast
  then show ?thesis
  proof cases
    case 1
    then show ?thesis by simp
  next
    case 2
    from scripts_loop_count [OF 2(2)] 2(1,3) show ?thesis by simp
  next
    case 3
    from meta_loop_count [OF 3(2)] 3(1,3) show ?thesis by simp
  qed
qed

lemma check_page_content_exact:
  assumes "page_content pg = Returns c"
    and "page_scripts pg = Returns scripts" and "\<forall>s\<in>set scripts. src_attr s \<noteq> Raises"
    and "page_metas pg = Returns metas"
    and "\<forall>m\<in>set metas. name_attr m \<noteq> Raises \<and> content_attr m \<noteq> Raises"
  shows "headless_shopify (a_content (check_page_content st pg)) =
     (headless_shopify (a_content st) \<or> 2 \<le> script_tally scripts \<or> 2 \<le> meta_tally metas)"
proof -
  from scripts_loop_returns [OF assms(3), of "a_headless st" 0] obtain hi where
    "scripts_loop scripts (a_headless st) 0 = (hi, Some (script_tally scripts))"
    by auto
  moreover from meta_loop_returns [OF assms(5), of 0] have
    "meta_loop metas 0 = Some (meta_tally metas)"
    by simp
  ultimately show ?thesis
    unfolding check_page_content_headless [OF assms(1)] using assms(2,4) by simp
qed

lemma check_page_content_sub_flags:
  assumes "page_content pg = Returns c"
    and "page_scripts pg = Returns (pre @ s # post)" and "\<forall>x\<in>set pre. src_attr x \<noteq> Raises"
    and "src_attr s = Returns (Some src)"
  shows "(contains ''@shopify/hydrogen'' src \<longrightarrow> hydrogen (a_headless (check_page_content st pg)))
     \<and> (contains ''@shopify/storefront-api'' src
          \<longrightarrow> storefront_api (a_headless (check_page_content st pg)))
     \<and> (contains ''shopify-buy'' src \<longrightarrow> buy_sdk (a_headless (check_page_content st pg)))"
proof -
  obtain hi r where loop: "scripts_loop (pre @ s # post) (a_headless st) 0 = (hi, r)"
    by (cases "scripts_loop (pre @ s # post) (a_headless st) 0")
  from scripts_loop_flags [OF assms(3,4) loop] loop show ?thesis
    unfolding check_page_content_a_headless [OF assms(1,2)] by simp
qed

text \<open>
  Claim C3. Counting as in \<open>script_tally\<close> and \<open>meta_tally\<close>, \<open>check_page_content\<close>
  turns \<open>headless_shopify\<close> from false to true only when the script elements give at least
  2 matches or the meta elements give at least 2 matches; when every attribute of the page
  can be read, it is true afterwards exactly when it was true before or one of the two
  tallies is at least 2. A script list with exactly one match, with fewer than two meta
  matches, leaves it false. The flags \<open>hydrogen\<close>, \<open>storefront_api\<close> and \<open>buy_sdk\<close> are
  set as soon as a script element whose \<open>src\<close> holds the package path is reached, whatever
  the tallies.
\<close>

theorem check_page_content_threshold:
  "(headless_shopify (a_content (check_page_content st pg)) \<and> \<not> headless_shopify (a_content st)
      \<longrightarrow> (\<exists>scripts. page_scripts pg = Returns scripts \<and> 2 \<le> script_tally scripts)
          \<or> (\<exists>metas. page_metas pg = Returns metas \<and> 2 \<le> meta_tally metas))
   \<and> (page_content pg = Returns c
       \<and> page_scripts pg = Returns scripts \<and> (\<forall>x\<in>set scripts. src_attr x \<noteq> Raises)
       \<and> page_metas pg = Returns metas
       \<and> (\<forall>m\<in>set metas. name_attr m \<noteq> Raises \<and> content_attr m \<noteq> Raises)
      \<longrightarrow> headless_shopify (a_content (check_page_content st pg))
            = (headless_shopify (a_content st)
               \<or> 2 \<le> script_tally scripts \<or> 2 \<le> meta_tally metas))
   \<and> (\<not> headless_shopify (a_content st)
       \<and> page_scripts pg = Returns scripts \<and> script_tally scripts = 1
       \<and> page_metas pg = Returns metas \<and> meta_tally metas < 2
      \<longrightarrow> \<not> headless_shopify (a_content (check_page_content st pg)))
   \<and> (page_content pg = Returns c
       \<and> page_scripts pg = Returns (pre @ s # post) \<and> (\<forall>x\<in>set pre. src_attr x \<noteq> Raises)
       \<and> src_attr s = Returns (Some src)
      \<longrightarrow> (contains ''@shopify/hydrogen'' src
             \<longrightarrow> hydrogen (a_headless (check_page_content st pg)))
          \<and> (contains ''@shopify/storefront-api'' src
             \<longrightarrow> storefront_api (a_headless (check_page_content st pg)))
          \<and> (contains ''shopify-buy'' src
             \<longrightarrow> buy_sdk (a_headless (check_page_content st pg))))"
proof (intro conjI impI)
  assume "headless_shopify (a_content (check_page_content st pg))
            \<and> \<not> headless_shopify (a_content st)"
  then show "(\<exists>scripts. page_scripts pg = Returns scripts \<and> 2 \<le> script_tally scripts)
          \<or> (\<exists>metas. page_metas pg = Returns metas \<and> 2 \<le> meta_tally metas)"
    using check_page_content_only_when [of st pg] by blast
next
  assume "page_content pg = Returns c
       \<and> page_scripts pg = Returns scripts \<and> (\<forall>x\<in>set scripts. src_attr x \<noteq> Raises)
       \<and> page_metas pg = Returns metas
       \<and> (\<forall>m\<in>set metas. name_attr m \<noteq> Raises \<and> content_attr m \<noteq> Raises)"
  then show "headless_shopify (a_content (check_page_content st pg))
            = (headless_shopify (a_content st)
               \<or> 2 \<le> script_tally scripts \<or> 2 \<le> meta_tally metas)"
    by (intro check_page_content_exact) simp_all
next
  assume a: "\<not> headless_shopify (a_content st)
       \<and> page_scripts pg = Returns scripts \<and> script_tally scripts = 1
       \<and> page_metas pg = Returns metas \<and> meta_tally metas < 2"
  show "\<not> headless_shopify (a_content (check_page_content st pg))"
  proof
    assume "headless_shopify (a_content (check_page_content st pg))"
    from check_page_content_only_when [OF this] a show False by auto
  qed
next
  assume a: "page_content pg = Returns c
       \<and> page_scripts pg = Returns (pre @ s # post) \<and> (\<forall>x\<in>set pre. src_attr x \<noteq> Raises)
       \<and> src_attr s = Returns (Some src)"
  then have sub: "(contains ''@shopify/hydrogen'' src
             \<longrightarrow> hydrogen (a_headless (check_page_content st pg)))
          \<and> (contains ''@shopify/storefront-api'' src
             \<longrightarrow> storefront_api (a_headless (check_page_content st pg)))
          \<and> (contains ''shopify-buy'' src
             \<longrightarrow> buy_sdk (a_headless (check_page_content st pg)))"
    using check_page_content_sub_flags [of pg c pre s post src st] by blast
  { assume "contains ''@shopify/hydrogen'' src"
    with sub show "hydrogen (a_headless (check_page_content st pg))" by simp }
  { assume "contains ''@shopify/storefront-api'' src"
    with sub show "storefront_api (a_headless (check_page_content st pg))" by simp }
  { assume "contains ''shopify-buy'' src"
    with sub show "buy_sdk (a_headless (check_page_content st pg))" by simp }
qed

theorem check_page_content_threshold_witness:
  "script_tally [hydrogen_script] = 1
   \<and> meta_tally [viewport_meta] = 0
   \<and> contains ''@shopify/hydrogen'' ''https://cdn.example.com/@shopify/hydrogen.js''
   \<and> hydrogen (a_headless (check_page_content reset_flags
        (example_page ''<html></html>'' [hydrogen_script])))
   \<and> \<not> headless_shopify (a_content (check_page_content reset_flags
        (example_page ''<html></html>'' [hydrogen_script])))
   \<and> script_tally [hydrogen_script, storefront_script] = 2
   \<and> headless_shopify (a_content (check_page_content reset_flags
        (example_page ''<html></html>'' [hydrogen_script, storefront_script])))"
proof -
  have t1: "script_tally [hydrogen_script] = 1" by code_simp
  have t2: "meta_tally [viewport_meta] = 0" by code_simp
  have t3: "script_tally [hydrogen_script, storefront_script] = 2" by code_simp
  have c: "contains ''@shopify/hydrogen'' ''https://cdn.example.com/@shopify/hydrogen.js''"
    by code_simp
  have r: "\<not> headless_shopify (a_content reset_flags)" by (simp add: reset_flags_def)
  from check_page_content_threshold [of reset_flags
      "example_page ''<html></html>'' [hydrogen_script]" "''<html></html>''"
      "[hydrogen_script]" "[viewport_meta]" "[]" hydrogen_script "[]"
      "''https://cdn.example.com/@shopify/hydrogen.js''"] t1 t2 c r
  have one: "hydrogen (a_headless (check_page_content reset_flags
        (example_page ''<html></html>'' [hydrogen_script])))
     \<and> \<not> headless_shopify (a_content (check_page_content reset_flags
        (example_page ''<html></html>'' [hydrogen_script])))"
    by (simp add: example_page_def hydrogen_script_def)
  from check_page_content_threshold [of reset_flags
      "example_page ''<html></html>'' [hydrogen_script, storefront_script]" "''<html></html>''"
      "[hydrogen_script, storefront_script]" "[viewport_meta]" "[]" hydrogen_script
      "[storefront_script]" "''https://cdn.example.com/@shopify/hydrogen.js''"] t3 t2 r
  have two: "headless_shopify (a_content (check_page_content reset_flags
        (example_page ''<html></html>'' [hydrogen_script, storefront_script])))"
    by (simp add: example_page_def hydrogen_script_def storefront_script_def viewport_meta_def)
  from t1 t2 t3 c one two show ?thesis by blast
qed

section \<open>Sessions\<close>

lemma keeps_flags_refl: "keeps_flags st st"
  by (simp add: keeps_flags_def)

lemma keeps_flags_trans: "keeps_flags a b \<Longrightarrow> keeps_flags b c \<Longrightarrow> keeps_flags a c"
  by (simp add: keeps_flags_def)

lemma keeps_flags_requests: "keeps_flags st (st\<lparr>a_requests := nr\<rparr>)"
  by (simp add: keeps_flags_def)

lemma keeps_log_event_data:
  "keeps_flags st (log_event_data lib st event_name version art event_id url_alart url_aleid)"
  by (simp add: keeps_flags_def log_event_data_def Let_def)

lemma keeps_check_shopify_indicators: "keeps_flags st (check_shopify_indicators st pg resp)"
  by (simp add: keeps_flags_def check_shopify_indicators_def check_shopify_indicators_body_def
      set_shopify_def split: outcome.splits)

lemma keeps_check_page_content: "keeps_flags st (check_page_content st pg)"
proof (cases "page_content pg")
  case Raises
  then show ?thesis by (simp add: check_page_content_def keeps_flags_refl)
next
  case (Returns c)
  let ?st1 = "st\<lparr>a_content :=
                fold (\<lambda>(indicator, patterns).
                        set_indicator indicator
                          (list_ex (\<lambda>pattern. contains (lower pattern) (lower c)) patterns))
                  TRACKING_INDICATORS (a_content st)\<rparr>"
  have 1: "keeps_flags st ?st1"
    by (simp add: keeps_flags_def tracking_fold)
  have 2: "keeps_flags ?st1 (check_headless_shopify_scripts ?st1 pg)"
    using scripts_check_keeps [of ?st1 pg] scripts_check_headless [of ?st1 pg]
    unfolding keeps_flags_def by simp
  have 3: "keeps_flags (check_headless_shopify_scripts ?st1 pg)
     (check_headless_shopify_meta_tags (check_headless_shopify_scripts ?st1 pg) pg)"
    using meta_check_keeps [of "check_headless_shopify_scripts ?st1 pg" pg]
      meta_check_headless [of "check_headless_shopify_scripts ?st1 pg" pg]
    unfolding keeps_flags_def by simp
  from keeps_flags_trans [OF keeps_flags_trans [OF 1 2] 3] show ?thesis
    unfolding check_page_content_Returns [OF Returns] .
qed

lemma keeps_check_shopify_api_request: "keeps_flags st (check_shopify_api_request lib st rq)"
  by (simp add: keeps_flags_def check_shopify_api_request_def endpoint_loop_eq header_loop_eq
      log_shopify_api_request_def Let_def)

lemma domain_step_requests: "\<exists>nr. domain_step u rq entry st = st\<lparr>a_requests := nr\<rparr>"
proof -
  have same: "st = st\<lparr>a_requests := a_requests st\<rparr>" by simp
  obtain domain kind critical where entry: "entry = (domain, kind, critical)"
    by (cases entry)
  show ?thesis
    unfolding entry domain_step_def Let_def prod.case
    using same by (metis (full_types))
qed

lemma keeps_domain_fold: "keeps_flags st (fold (domain_step u rq) ds st)"
proof (induction ds arbitrary: st)
  case Nil
  show ?case by (simp add: keeps_flags_refl)
next
  case (Cons d ds)
  from domain_step_requests obtain nr where "domain_step u rq d st = st\<lparr>a_requests := nr\<rparr>"
    by blast
  with Cons [of "st\<lparr>a_requests := nr\<rparr>"] keeps_flags_requests [of st nr] show ?case
    by (auto intro: keeps_flags_trans)
qed

lemma keeps_process_pixel_request_body:
  "process_pixel_request_body lib st rq = Inr st' \<Longrightarrow> keeps_flags st st'"
  by (auto simp: process_pixel_request_body_def keeps_flags_refl keeps_log_event_data
      split: outcome.splits sum.splits option.splits prod.splits if_splits)

lemma keeps_process_pixel_request: "keeps_flags st (process_pixel_request lib st rq)"
  by (cases "process_pixel_request_body lib st rq")
     (simp_all add: process_pixel_request_def keeps_flags_refl
        keeps_process_pixel_request_body)

lemma keeps_check_request: "keeps_flags st (check_request lib st rq)"
proof -
  let ?st1 = "check_shopify_api_request lib st rq"
  let ?st2 = "fold (domain_step (lower (url rq)) rq) DOMAINS_OF_INTEREST ?st1"
  have 12: "keeps_flags st ?st2"
    using keeps_check_shopify_api_request keeps_domain_fold by (rule keeps_flags_trans)
  have 3: "keeps_flags ?st2 (process_pixel_request lib ?st2 rq)"
    by (rule keeps_process_pixel_request)
  from 12 keeps_flags_trans [OF 12 3] show ?thesis
    by (simp add: check_request_def Let_def)
qed

lemma keeps_apply_operation: "keeps_flags st (apply_operation lib st operation)"
  by (cases operation)
     (simp_all add: keeps_check_page_content keeps_check_request keeps_check_shopify_indicators
        keeps_log_event_data)

lemma keeps_foldl: "keeps_flags st (foldl (apply_operation lib) st ops)"
proof (induction ops arbitrary: st)
  case Nil
  show ?case by (simp add: keeps_flags_refl)
next
  case (Cons operation ops)
  from keeps_apply_operation [of st lib operation] Cons [of "apply_operation lib st operation"]
  show ?case by (auto intro: keeps_flags_trans)
qed

text \<open>
  Claim C1, as stated, fails for the content indicators \<open>shopify\<close>, \<open>axon\<close>, \<open>gtm\<close>,
  \<open>ga\<close> and \<open>ga4\<close>: \<open>check_page_content\<close> assigns each of them the result of its pattern
  test, and \<open>check_shopify_indicators\<close> assigns \<open>shopify\<close> the result of its last three
  checks. On a page whose HTML mentions \<open>myshopify.com\<close>, at a URL that does not and with
  no element for the two selectors, \<open>check_page_content\<close> sets \<open>shopify\<close> and the
  \<open>check_shopify_indicators\<close> that follows sets it back to false.
\<close>

theorem session_shopify_reset_counterexample:
  "shopify (a_content (run_session example_lib
      [CheckPageContent (example_page ''<a href=https://store.myshopify.com/>shop</a>'' [])]))
   \<and> \<not> shopify (a_content (run_session example_lib
      [CheckPageContent (example_page ''<a href=https://store.myshopify.com/>shop</a>'' []),
       CheckShopifyIndicators
         (example_page ''<a href=https://store.myshopify.com/>shop</a>'' []) None]))"
  by code_simp

text \<open>
  Claim C1, amended. In every session, whatever sequence of \<open>check_page_content\<close>,
  \<open>check_request\<close>, \<open>check_shopify_indicators\<close> and \<open>log_event_data\<close> follows
  \<open>reset_flags\<close>, every flag of \<open>events\<close>, \<open>parameter_matches\<close> and
  \<open>headless_indicators\<close>, and the flag \<open>headless_shopify\<close> of \<open>content_indicators\<close>,
  is monotonic: once true after some operations, it is true after any further operations.
\<close>

theorem session_keeps_flags:
  "keeps_flags (run_session lib ops) (run_session lib (ops @ later))"
  by (simp add: run_session_def keeps_foldl)

theorem session_keeps_flags_witness:
  "hydrogen (a_headless (run_session example_lib
      [CheckPageContent (example_page ''<html></html>'' [hydrogen_script])]))
   \<and> hydrogen (a_headless (run_session example_lib
      ([CheckPageContent (example_page ''<html></html>'' [hydrogen_script])]
       @ [CheckShopifyIndicators (example_page ''<html></html>'' []) None,
          CheckPageContent (example_page ''<html></html>'' [])])))"
proof -
  have "hydrogen (a_headless (run_session example_lib
      [CheckPageContent (example_page ''<html></html>'' [hydrogen_script])]))"
    by code_simp
  with session_keeps_flags [of example_lib
      "[CheckPageContent (example_page ''<html></html>'' [hydrogen_script])]"
      "[CheckShopifyIndicators (example_page ''<html></html>'' []) None,
        CheckPageContent (example_page ''<html></html>'' [])]"]
  show ?thesis unfolding keeps_flags_def by blast
qed

end
